theory Spec2Isabelle
  imports Main
begin

section \<open>Strings and numbers as the JavaScript source uses them\<close>

text \<open>
  A JavaScript string is represented by the bytes of its UTF-8 encoding (generalised so
  that a lone surrogate is the three bytes a code point of that value would get), which
  is one-to-one: ASCII text is its own representation, and a character of the source
  beyond ASCII is written as its bytes. Byte lists that encode no string are not inputs.
  Telegram ids are JavaScript numbers holding integers; they are modelled as \<open>int\<close>,
  exact within the safe-integer range of a double. \<open>null\<close>, \<open>undefined\<close> and
  \<open>NaN\<close> are \<open>None\<close>.
\<close>

definition nl :: string where
  "nl = [CHR 0x0A]"

definition is_digit :: "char \<Rightarrow> bool" where
  "is_digit c = (c \<in> set ''0123456789'')"

definition digit_char :: "nat \<Rightarrow> char" where
  "digit_char d = ''0123456789'' ! d"

definition digit_val :: "char \<Rightarrow> nat" where
  "digit_val c = of_char c - 48"

text \<open>Template-literal rendering of a non-negative integer: its decimal digits.\<close>

fun show_nat :: "nat \<Rightarrow> string" where
  "show_nat n = (if n < 10 then [digit_char n] else show_nat (n div 10) @ [digit_char (n mod 10)])"

declare show_nat.simps [simp del]

definition show_int :: "int \<Rightarrow> string" where
  "show_int i = (if i < 0 then CHR ''-'' # show_nat (nat (- i)) else show_nat (nat i))"

text \<open>\<open>String.prototype.startsWith\<close>.\<close>

definition starts_with :: "string \<Rightarrow> string \<Rightarrow> bool" where
  "starts_with p s = (take (length p) s = p)"

text \<open>
  The white space that \<open>String.prototype.trim\<close> and \<open>parseInt\<close> strip, each code
  point by its bytes: TAB, LF, VT, FF, CR, SP, U+00A0, U+1680, U+2000 to U+200A, U+2028,
  U+2029, U+202F, U+205F, U+3000 and U+FEFF.
\<close>

definition js_space_codes :: "string list" where
  "js_space_codes =
     [[CHR 0x09], [CHR 0x0A], [CHR 0x0B], [CHR 0x0C], [CHR 0x0D], [CHR 0x20],
      [CHR 0xC2, CHR 0xA0], [CHR 0xE1, CHR 0x9A, CHR 0x80],
      [CHR 0xE2, CHR 0x80, CHR 0x80], [CHR 0xE2, CHR 0x80, CHR 0x81],
      [CHR 0xE2, CHR 0x80, CHR 0x82], [CHR 0xE2, CHR 0x80, CHR 0x83],
      [CHR 0xE2, CHR 0x80, CHR 0x84], [CHR 0xE2, CHR 0x80, CHR 0x85],
      [CHR 0xE2, CHR 0x80, CHR 0x86], [CHR 0xE2, CHR 0x80, CHR 0x87],
      [CHR 0xE2, CHR 0x80, CHR 0x88], [CHR 0xE2, CHR 0x80, CHR 0x89],
      [CHR 0xE2, CHR 0x80, CHR 0x8A], [CHR 0xE2, CHR 0x80, CHR 0xA8],
      [CHR 0xE2, CHR 0x80, CHR 0xA9], [CHR 0xE2, CHR 0x80, CHR 0xAF],
      [CHR 0xE2, CHR 0x81, CHR 0x9F], [CHR 0xE3, CHR 0x80, CHR 0x80],
      [CHR 0xEF, CHR 0xBB, CHR 0xBF]]"

text \<open>The number of bytes of the white-space code the string opens with, 0 when it opens
  with none; and the string without the white space it opens with.\<close>

definition space_at :: "string list \<Rightarrow> string \<Rightarrow> nat" where
  "space_at codes s =
     (case find (\<lambda>p. starts_with p s) codes of None \<Rightarrow> 0 | Some p \<Rightarrow> length p)"

fun strip_with :: "string list \<Rightarrow> string \<Rightarrow> string" where
  "strip_with codes [] = []"
| "strip_with codes (c # cs) =
     (if space_at codes (c # cs) = 0 then c # cs
      else strip_with codes (drop (space_at codes (c # cs) - 1) cs))"

text \<open>\<open>trim\<close> strips both ends; at the end the codes are read backwards. A code
  starts with a byte that continues no other code point, so a string that ends with the
  bytes of a white-space code ends with that code point.\<close>

definition trim :: "string \<Rightarrow> string" where
  "trim s = rev (strip_with (map rev js_space_codes) (rev (strip_with js_space_codes s)))"

text \<open>
  \<open>substring(n)\<close> drops \<open>n\<close> UTF-16 code units: a code point of one, two or three
  bytes is one unit, a code point of four bytes is two units. Dropping the first unit
  of such a pair leaves its low surrogate, whose three bytes are computed from the last
  two bytes of the code point.
\<close>

fun unit_drop :: "nat \<Rightarrow> string \<Rightarrow> string" where
  "unit_drop 0 s = s"
| "unit_drop (Suc n) [] = []"
| "unit_drop (Suc n) (c # cs) =
     (if (of_char c :: nat) < 0xC0 then unit_drop n cs
      else if (of_char c :: nat) < 0xE0 then unit_drop n (drop 1 cs)
      else if (of_char c :: nat) < 0xF0 then unit_drop n (drop 2 cs)
      else (case n of
              Suc k \<Rightarrow> unit_drop k (drop 3 cs)
            | 0 \<Rightarrow>
                (case cs of
                   b1 # b2 # b3 # rest \<Rightarrow>
                     [CHR 0xED, char_of (0xB0 + (of_char b2 :: nat) mod 16), b3] @ rest
                 | _ \<Rightarrow> [])))"

definition digits_value :: "string \<Rightarrow> nat" where
  "digits_value ds = foldl (\<lambda>acc c. acc * 10 + digit_val c) 0 ds"

text \<open>
  \<open>parseInt(s, 10)\<close>: skip leading white space, read an optional sign, then the longest
  run of decimal digits; \<open>NaN\<close> (here \<open>None\<close>) when there is no digit.
\<close>

definition parseInt10 :: "string \<Rightarrow> int option" where
  "parseInt10 s =
     (let s1 = strip_with js_space_codes s;
          neg = (s1 \<noteq> [] \<and> hd s1 = CHR ''-'');
          s2 = (if s1 \<noteq> [] \<and> (hd s1 = CHR ''-'' \<or> hd s1 = CHR ''+'') then tl s1 else s1);
          ds = takeWhile is_digit s2
      in if ds = [] then None
         else Some (if neg then - int (digits_value ds) else int (digits_value ds)))"

text \<open>
  \<open>parseInt(process.env.X, 10)\<close>: an unset variable is \<open>undefined\<close>, which
  \<open>parseInt\<close> turns into the string "undefined" before parsing.
\<close>

definition parseInt_env :: "string option \<Rightarrow> int option" where
  "parseInt_env v = parseInt10 (case v of None \<Rightarrow> ''undefined'' | Some s \<Rightarrow> s)"

text \<open>Truthiness of a possibly absent string: \<open>undefined\<close>, \<open>null\<close> and \<open>''\<close> are falsy.\<close>

definition truthy :: "string option \<Rightarrow> bool" where
  "truthy v = (case v of None \<Rightarrow> False | Some s \<Rightarrow> s \<noteq> [])"

text \<open>\<open>v || d\<close> on strings.\<close>

definition or_else :: "string option \<Rightarrow> string \<Rightarrow> string" where
  "or_else v d = (if truthy v then the v else d)"

text \<open>\<open>Array.prototype.join\<close>.\<close>

fun join :: "string \<Rightarrow> string list \<Rightarrow> string" where
  "join sep [] = []"
| "join sep [x] = x"
| "join sep (x # y # ys) = x @ sep @ join sep (y # ys)"

section \<open>The persistence gateway (src/lib/supabase.js, lines 1 to 160)\<close>

subsection \<open>Rows and backend responses\<close>

record registrant =
  telegram_id :: int
  username :: "string option"
  first_name :: string

record log_entry =
  admin_telegram_id :: int
  action :: string
  details :: string

datatype pg_error = PgError (code: string)

text \<open>
  What a query of the client library gives: the awaited object \<open>{data, error}\<close>, or a
  thrown exception.
\<close>

datatype 'a response = Resolved (data: "'a option") (error: "pg_error option") | Rejected

text \<open>
  \<open>isUserRegistered\<close>, from the response of the \<open>.single()\<close> select to its result:
  \<open>Some True\<close>, \<open>Some False\<close>, or \<open>None\<close> for the \<open>null\<close> the source
  returns on error.
\<close>

definition isUserRegistered_of :: "'a response \<Rightarrow> bool option" where
  "isUserRegistered_of r =
     (case r of
        Rejected \<Rightarrow> None
      | Resolved d e \<Rightarrow>
          if e \<noteq> None \<and> code (the e) \<noteq> ''PGRST116'' then None
          else Some (d \<noteq> None))"

text \<open>
  The other four operations share one shape: \<open>null\<close> on a reported error or an
  exception, the response's payload otherwise.
\<close>

definition data_or_null :: "'a response \<Rightarrow> 'a option" where
  "data_or_null r =
     (case r of
        Rejected \<Rightarrow> None
      | Resolved d e \<Rightarrow> if e \<noteq> None then None else d)"

subsection \<open>The hosted store and its faults\<close>

text \<open>
  The outcome of one call to the backend: it answers from its tables, it reports an error
  with the given code, or the client throws (a transport fault).
\<close>

datatype db_outcome = Healthy | BackendError string | Thrown

datatype button = CallbackButton string string | UrlButton string string

datatype tg_call =
    Reply string
  | ReplyKeyboard string "button list list"
  | EditMessageText string
  | AnswerCbQuery "string option" bool
  | SendMessage int string

datatype db_call =
    IsUserRegistered int
  | RegisterUser registrant
  | GetRegisteredUserCount
  | GetRegisteredUsersList
  | LogAdminAction log_entry

text \<open>
  Every call the bot makes is recorded in order: a transport call with the error it
  raised (\<open>None\<close> when the transport accepted it), a gateway call, or a line written
  by \<open>bot.catch\<close>.
\<close>

datatype event = Tg tg_call "string option" | Db db_call | ConsoleError string

text \<open>
  The world outside the process: the two tables, the outcomes the backend and the
  transport will give to the coming calls (one entry is consumed by each call; an
  exhausted script means no fault), and the trace of calls made so far.
\<close>

record world =
  registrations :: "registrant list"
  admin_logs :: "log_entry list"
  db_script :: "db_outcome list"
  tg_script :: "string option list"
  trace :: "event list"

definition next_db :: "world \<Rightarrow> db_outcome" where
  "next_db w = (case db_script w of [] \<Rightarrow> Healthy | oc # _ \<Rightarrow> oc)"

definition db_step :: "db_call \<Rightarrow> world \<Rightarrow> world" where
  "db_step c w = w\<lparr>db_script := tl (db_script w), trace := trace w @ [Db c]\<rparr>"

definition next_tg :: "world \<Rightarrow> string option" where
  "next_tg w = (case tg_script w of [] \<Rightarrow> None | e # _ \<Rightarrow> e)"

text \<open>A transport call: returns the error it raised, if any.\<close>

definition tg :: "tg_call \<Rightarrow> world \<Rightarrow> string option \<times> world" where
  "tg c w = (next_tg w, w\<lparr>tg_script := tl (tg_script w), trace := trace w @ [Tg c (next_tg w)]\<rparr>)"

text \<open>
  Modelled from the spec: the hosted tables, which are not part of the repository. The
  registration table has \<open>telegram_id\<close> as its primary key (spec, data model); a
  \<open>.single()\<close> select answers with error code PGRST116 unless exactly one row matches;
  an insert of a present key is refused with the unique-violation code; a faulting call
  leaves the tables as they are.
\<close>

definition fault_response :: "db_outcome \<Rightarrow> 'a response" where
  "fault_response oc =
     (case oc of BackendError c \<Rightarrow> Resolved None (Some (PgError c)) | _ \<Rightarrow> Rejected)"

definition select_single :: "int \<Rightarrow> db_outcome \<Rightarrow> registrant list \<Rightarrow> registrant response" where
  "select_single tid oc regs =
     (if oc = Healthy then
        (case filter (\<lambda>r. telegram_id r = tid) regs of
           [r] \<Rightarrow> Resolved (Some r) None
         | _ \<Rightarrow> Resolved None (Some (PgError ''PGRST116'')))
      else fault_response oc)"

definition insert_registration ::
  "registrant \<Rightarrow> db_outcome \<Rightarrow> registrant list \<Rightarrow> registrant response \<times> registrant list" where
  "insert_registration row oc regs =
     (if oc = Healthy then
        (if telegram_id row \<in> telegram_id ` set regs
         then (Resolved None (Some (PgError ''23505'')), regs)
         else (Resolved (Some row) None, regs @ [row]))
      else (fault_response oc, regs))"

definition count_exact :: "db_outcome \<Rightarrow> registrant list \<Rightarrow> nat response" where
  "count_exact oc regs =
     (if oc = Healthy then Resolved (Some (length regs)) None else fault_response oc)"

definition select_all ::
  "db_outcome \<Rightarrow> registrant list \<Rightarrow> (int \<times> string option) list response" where
  "select_all oc regs =
     (if oc = Healthy then Resolved (Some (map (\<lambda>r. (telegram_id r, username r)) regs)) None
      else fault_response oc)"

definition insert_log ::
  "log_entry \<Rightarrow> db_outcome \<Rightarrow> log_entry list \<Rightarrow> log_entry response \<times> log_entry list" where
  "insert_log e oc logs =
     (if oc = Healthy then (Resolved (Some e) None, logs @ [e]) else (fault_response oc, logs))"

subsection \<open>The five operations\<close>

definition isUserRegistered :: "int \<Rightarrow> world \<Rightarrow> bool option \<times> world" where
  "isUserRegistered telegramId w =
     (isUserRegistered_of (select_single telegramId (next_db w) (registrations w)),
      db_step (IsUserRegistered telegramId) w)"

definition registerUser :: "registrant \<Rightarrow> world \<Rightarrow> registrant option \<times> world" where
  "registerUser userData w =
     (let (resp, regs) = insert_registration userData (next_db w) (registrations w)
      in (data_or_null resp, (db_step (RegisterUser userData) w)\<lparr>registrations := regs\<rparr>))"

definition getRegisteredUserCount :: "world \<Rightarrow> nat option \<times> world" where
  "getRegisteredUserCount w =
     (data_or_null (count_exact (next_db w) (registrations w)), db_step GetRegisteredUserCount w)"

definition getRegisteredUsersList :: "world \<Rightarrow> (int \<times> string option) list option \<times> world" where
  "getRegisteredUsersList w =
     (data_or_null (select_all (next_db w) (registrations w)), db_step GetRegisteredUsersList w)"

definition logAdminAction :: "log_entry \<Rightarrow> world \<Rightarrow> log_entry option \<times> world" where
  "logAdminAction logData w =
     (let (resp, logs) = insert_log logData (next_db w) (admin_logs w)
      in (data_or_null resp, (db_step (LogAdminAction logData) w)\<lparr>admin_logs := logs\<rparr>))"

section \<open>The bot (the last revision in src/lib/supabase.js)\<close>

text \<open>
  The file holds the gateway (lines 1 to 160) and, after two earlier drafts, the bot in its
  last revision (lines 567 to 973), which is the one embedded here. Console output other
  than the line of \<open>bot.catch\<close> is left out, as are the \<open>parse_mode\<close> options.
\<close>

subsection \<open>Configuration, senders and message texts\<close>

record config =
  ADMIN_ID :: "string option"
  ADMIN_USERNAME :: "string option"

record tg_user =
  from_id :: int
  from_username :: "string option"
  from_first_name :: "string option"

text \<open>What escapes a handler: a rejected transport call, or a read of \<open>ctx.from.id\<close>
  when the update has no sender.\<close>

datatype fault = TransportError string | TypeError

definition apostrophe :: string where
  "apostrophe = [CHR 0xE2, CHR 0x80, CHR 0x99]"

definition bullet :: string where
  "bullet = [CHR 0xE2, CHR 0x80, CHR 0xA2]"

definition unauthorized_text :: string where
  "unauthorized_text = ''Unauthorized access. This command is for admins only.''"

definition generic_failure :: string where
  "generic_failure = ''Something went wrong, please try again later.''"

definition already_registered :: string where
  "already_registered =
     ''You'' @ apostrophe @ ''re already registered. I'' @ apostrophe
       @ ''ll notify you when the app is live.''"

definition not_for_you :: string where
  "not_for_you = ''This registration prompt is not for you.''"

definition confirmation_text :: "string \<Rightarrow> string" where
  "confirmation_text firstName =
     [CHR 0xF0, CHR 0x9F, CHR 0x8E, CHR 0x89] @ '' Great! Thanks for registering, '' @ firstName
       @ ''! I'' @ apostrophe @ ''ll notify you when the Portfolio Showcase app is ready.''"

definition registration_failed :: string where
  "registration_failed = ''Something went wrong during registration, please try again later.''"

definition decline_ack :: string where
  "decline_ack = ''No problem! You can type /start again anytime if you change your mind.''"

definition hint_text :: string where
  "hint_text = ''I'' @ [CHR 0x27] @ ''m a registration bot! Please use commands like /start or /help.''"

definition registration_prompt :: "tg_user \<Rightarrow> string" where
  "registration_prompt u =
     ''Hello '' @ or_else (from_first_name u) ''there'' @ ''! I see you'' @ [CHR 0x27]
       @ ''re not yet registered.'' @ nl @ nl
       @ ''I'' @ [CHR 0x27] @ ''ll collect the following information to keep you updated:'' @ nl
       @ bullet @ '' Your Telegram ID: `'' @ show_int (from_id u) @ ''`'' @ nl
       @ (if truthy (from_username u)
          then bullet @ '' Your Username: `@'' @ the (from_username u) @ ''`'' @ nl
          else bullet @ '' Your Username: `Not available` (You can set one in Telegram settings!)'' @ nl)
       @ bullet @ '' Your First Name: `'' @ or_else (from_first_name u) ''Not provided'' @ ''`'' @ nl @ nl
       @ ''Would you like to register for updates about the Portfolio Showcase app?''"

text \<open>The inline keyboard of the offer: the two callback buttons, and the link to the
  administrator when \<open>ADMIN_USERNAME\<close> is set.\<close>

definition start_buttons :: "config \<Rightarrow> int \<Rightarrow> button list list" where
  "start_buttons cfg telegramId =
     [[CallbackButton ([CHR 0xE2, CHR 0x9C, CHR 0x85] @ '' Yes, register me!'')
                      (''register_yes:'' @ show_int telegramId),
       CallbackButton ([CHR 0xE2, CHR 0x9D, CHR 0x8C] @ '' No, thanks.'') ''register_no'']]
     @ (if truthy (ADMIN_USERNAME cfg)
        then [[UrlButton ([CHR 0xE2, CHR 0x9D, CHR 0x93] @ '' Contact Admin'')
                         (''https://t.me/'' @ the (ADMIN_USERNAME cfg))]]
        else [])"

definition help_text :: "bool \<Rightarrow> string" where
  "help_text admin =
     ''Welcome to the Portfolio Showcase Bot!'' @ nl @ nl
       @ ''Use /start to register for updates on the upcoming Portfolio Showcase Mini App.'' @ nl
       @ (if admin
          then nl @ ''--- Admin Commands ---'' @ nl
            @ ''/count - Get the total number of registered users.'' @ nl
            @ ''/list - Get a list of all registered usernames and IDs.'' @ nl
            @ ''/notify <message> - Send a broadcast message to all registered users. Example: `/notify The app is live!`'' @ nl
          else [])"

subsection \<open>The administrator check\<close>

text \<open>
  \<open>isAdmin\<close>: the middleware in front of the three administrator commands. \<open>next\<close>
  is the gated handler; it is given the sender the check has just read.
\<close>

definition isAdmin ::
  "config \<Rightarrow> tg_user option \<Rightarrow> (tg_user \<Rightarrow> world \<Rightarrow> fault option \<times> world) \<Rightarrow> world
     \<Rightarrow> fault option \<times> world" where
  "isAdmin cfg sender next w =
     (if sender \<noteq> None \<and> Some (from_id (the sender)) = parseInt_env (ADMIN_ID cfg)
      then next (the sender) w
      else (None, snd (tg (Reply unauthorized_text) w)))"

subsection \<open>/start\<close>

definition start_handler :: "config \<Rightarrow> tg_user option \<Rightarrow> world \<Rightarrow> fault option \<times> world" where
  "start_handler cfg sender w =
     (case sender of
        None \<Rightarrow> (Some TypeError, w)
      | Some u \<Rightarrow>
          (let telegramId = from_id u;
               (registered, w1) = isUserRegistered telegramId w
           in case registered of
                None \<Rightarrow>
                  (let (err, w2) = tg (Reply generic_failure) w1
                   in (map_option TransportError err, w2))
              | Some True \<Rightarrow> (None, snd (tg (Reply already_registered) w1))
              | Some False \<Rightarrow>
                  (let (err, w2) =
                         tg (ReplyKeyboard (registration_prompt u) (start_buttons cfg telegramId)) w1
                   in if err = None then (None, w2)
                      else (None, snd (tg (Reply generic_failure) w2)))))"

subsection \<open>The registration buttons\<close>

text \<open>
  The trigger \<open>/register_(yes|no):?(\d+)?/\<close>, as \<open>exec\<close> applies it to the callback
  data: the leftmost place where "register_yes" or "register_no" starts, then an optional
  colon and the longest run of digits. The result is the pair of the two groups.
\<close>

definition match_tail :: "string \<Rightarrow> string option" where
  "match_tail r =
     (let r1 = (if starts_with '':'' r then tl r else r);
          ds = takeWhile is_digit r1
      in if ds = [] then None else Some ds)"

definition match_here :: "string \<Rightarrow> (string \<times> string option) option" where
  "match_here s =
     (if starts_with ''register_yes'' s then Some (''yes'', match_tail (drop 12 s))
      else if starts_with ''register_no'' s then Some (''no'', match_tail (drop 11 s))
      else None)"

fun match_register :: "string \<Rightarrow> (string \<times> string option) option" where
  "match_register [] = None"
| "match_register (c # cs) =
     (case match_here (c # cs) of Some m \<Rightarrow> Some m | None \<Rightarrow> match_register cs)"

text \<open>The body of the \<open>yes\<close> branch, up to its last edit of the prompt; the result is
  the error of that edit, if any.\<close>

definition accept_body :: "tg_user \<Rightarrow> world \<Rightarrow> string option \<times> world" where
  "accept_body u w =
     (let (alreadyRegistered, w1) = isUserRegistered (from_id u) w
      in case alreadyRegistered of
           None \<Rightarrow> tg (EditMessageText generic_failure) w1
         | Some True \<Rightarrow> tg (EditMessageText already_registered) w1
         | Some False \<Rightarrow>
             (let userData = \<lparr>telegram_id = from_id u, username = from_username u,
                              first_name = or_else (from_first_name u) ''N/A''\<rparr>;
                  (registrationResult, w2) = registerUser userData w1
              in if registrationResult \<noteq> None
                 then tg (EditMessageText
                            (confirmation_text (or_else (from_first_name u) ''there''))) w2
                 else tg (EditMessageText registration_failed) w2))"

text \<open>The \<open>try\<close> block and its \<open>catch\<close>, whose reply is not awaited.\<close>

definition action_try :: "string \<Rightarrow> tg_user \<Rightarrow> world \<Rightarrow> fault option \<times> world" where
  "action_try act u w =
     (let (err, w1) =
            (if act = ''yes'' then accept_body u w
             else if act = ''no'' then tg (EditMessageText decline_ack) w
             else (None, w))
      in if err = None then (None, w1)
         else (None, snd (tg (Reply generic_failure) w1)))"

text \<open>The guard tests the carried id by truthiness: an absent id, \<open>NaN\<close> and \<open>0\<close>
  do not trigger it. The acknowledgement of the click stands before the \<open>try\<close>.\<close>

definition action_handler ::
  "string \<times> string option \<Rightarrow> tg_user \<Rightarrow> world \<Rightarrow> fault option \<times> world" where
  "action_handler m u w =
     (let act = fst m;
          telegramIdFromCallback = (if truthy (snd m) then parseInt10 (the (snd m)) else None);
          currentTelegramId = from_id u
      in if telegramIdFromCallback \<noteq> None \<and> telegramIdFromCallback \<noteq> Some 0
            \<and> telegramIdFromCallback \<noteq> Some currentTelegramId
         then (let (err, w1) = tg (AnswerCbQuery (Some not_for_you) True) w
               in (map_option TransportError err, w1))
         else (let (err, w1) = tg (AnswerCbQuery None False) w
               in if err \<noteq> None then (map_option TransportError err, w1)
                  else action_try act u w1))"

subsection \<open>/help\<close>

definition help_handler :: "config \<Rightarrow> tg_user option \<Rightarrow> world \<Rightarrow> fault option \<times> world" where
  "help_handler cfg sender w =
     (case sender of
        None \<Rightarrow> (Some TypeError, w)
      | Some u \<Rightarrow>
          (None, snd (tg (Reply (help_text (Some (from_id u) = parseInt_env (ADMIN_ID cfg)))) w)))"

subsection \<open>/count\<close>

text \<open>In the three gated handlers \<open>u\<close> is \<open>ctx.from\<close>, which \<open>isAdmin\<close> has
  found defined. Each \<open>catch\<close> block replies without awaiting, then logs.\<close>

definition count_catch :: "tg_user \<Rightarrow> string \<Rightarrow> world \<Rightarrow> fault option \<times> world" where
  "count_catch u msg w =
     (let w1 = snd (tg (Reply generic_failure) w)
      in (None, snd (logAdminAction
                       \<lparr>admin_telegram_id = from_id u, action = ''count_users_failed'',
                        details = ''Unhandled error: '' @ msg\<rparr> w1)))"

definition count_handler :: "tg_user \<Rightarrow> world \<Rightarrow> fault option \<times> world" where
  "count_handler u w =
     (let (count, w1) = getRegisteredUserCount w
      in case count of
           None \<Rightarrow>
             (let (err, w2) =
                    tg (Reply ''Something went wrong while fetching user count, please try again later.'') w1
              in case err of
                   Some msg \<Rightarrow> count_catch u msg w2
                 | None \<Rightarrow>
                     (None, snd (logAdminAction
                                   \<lparr>admin_telegram_id = from_id u, action = ''count_users_failed'',
                                    details = ''Database error fetching count.''\<rparr> w2)))
         | Some n \<Rightarrow>
             (let (err, w2) =
                    tg (Reply (''Currently, '' @ show_nat n @ '' users are registered.'')) w1
              in case err of
                   Some msg \<Rightarrow> count_catch u msg w2
                 | None \<Rightarrow>
                     (None, snd (logAdminAction
                                   \<lparr>admin_telegram_id = from_id u, action = ''count_users'',
                                    details = ''Returned count: '' @ show_nat n\<rparr> w2))))"

subsection \<open>/list\<close>

definition render_user :: "int \<times> string option \<Rightarrow> string" where
  "render_user user =
     (let usernamePart = (if truthy (snd user) then '' (@'' @ the (snd user) @ '')'' else [])
      in ''- '' @ show_int (fst user) @ usernamePart)"

definition list_catch :: "tg_user \<Rightarrow> string \<Rightarrow> world \<Rightarrow> fault option \<times> world" where
  "list_catch u msg w =
     (let w1 = snd (tg (Reply generic_failure) w)
      in (None, snd (logAdminAction
                       \<lparr>admin_telegram_id = from_id u, action = ''list_users_failed'',
                        details = ''Unhandled error: '' @ msg\<rparr> w1)))"

definition list_handler :: "tg_user \<Rightarrow> world \<Rightarrow> fault option \<times> world" where
  "list_handler u w =
     (let (users, w1) = getRegisteredUsersList w
      in case users of
           None \<Rightarrow>
             (let (err, w2) =
                    tg (Reply ''Something went wrong while fetching the user list, please try again later.'') w1
              in case err of
                   Some msg \<Rightarrow> list_catch u msg w2
                 | None \<Rightarrow>
                     (None, snd (logAdminAction
                                   \<lparr>admin_telegram_id = from_id u, action = ''list_users_failed'',
                                    details = ''Database error fetching list.''\<rparr> w2)))
         | Some us \<Rightarrow>
             if length us = 0 then
               (let (err, w2) = tg (Reply ''No users are currently registered.'') w1
                in case err of
                     Some msg \<Rightarrow> list_catch u msg w2
                   | None \<Rightarrow>
                       (None, snd (logAdminAction
                                     \<lparr>admin_telegram_id = from_id u, action = ''list_users'',
                                      details = ''No registered users.''\<rparr> w2)))
             else
               (let userList = join nl (map render_user us);
                    (err, w2) = tg (Reply (''Registered Users:'' @ nl @ userList)) w1
                in case err of
                     Some msg \<Rightarrow> list_catch u msg w2
                   | None \<Rightarrow>
                       (None, snd (logAdminAction
                                     \<lparr>admin_telegram_id = from_id u, action = ''list_users'',
                                      details = ''Returned '' @ show_nat (length us) @ '' users.''\<rparr> w2))))"

subsection \<open>/notify\<close>

text \<open>
  The broadcast loop: one send per user, in the order of the list; a send that throws is
  counted and its id kept, and the loop goes on. The pause before each send is a timer
  and is left out.
\<close>

fun broadcast ::
  "string \<Rightarrow> (int \<times> string option) list \<Rightarrow> nat \<Rightarrow> nat \<Rightarrow> int list \<Rightarrow> world
     \<Rightarrow> (nat \<times> nat \<times> int list) \<times> world" where
  "broadcast messageText [] successfulSends failedSends failedUserIds w =
     ((successfulSends, failedSends, failedUserIds), w)"
| "broadcast messageText (user # users) successfulSends failedSends failedUserIds w =
     (case tg (SendMessage (fst user) messageText) w of
        (None, w1) \<Rightarrow>
          broadcast messageText users (Suc successfulSends) failedSends failedUserIds w1
      | (Some sendError, w1) \<Rightarrow>
          broadcast messageText users successfulSends (Suc failedSends)
            (failedUserIds @ [fst user]) w1)"

definition usage_hint :: string where
  "usage_hint = ''Please provide a message to send. Example: `/notify The app is now live!`''"

definition summary_text :: "nat \<Rightarrow> nat \<Rightarrow> string" where
  "summary_text successfulSends failedSends =
     ''Broadcast complete! Sent to '' @ show_nat successfulSends @ '' users. Failed for ''
       @ show_nat failedSends @ '' users.''"

definition broadcast_details :: "string \<Rightarrow> nat \<Rightarrow> nat \<Rightarrow> int list \<Rightarrow> string" where
  "broadcast_details messageText successfulSends failedSends failedUserIds =
     ''Message: '' @ [CHR 0x22] @ messageText @ [CHR 0x22] @ '' | Sent: '' @ show_nat successfulSends @ '', Failed: ''
       @ show_nat failedSends @ '' (IDs: ''
       @ (if join '', '' (map show_int failedUserIds) = [] then ''N/A''
          else join '', '' (map show_int failedUserIds))
       @ '')''"

definition notify_catch :: "tg_user \<Rightarrow> string \<Rightarrow> world \<Rightarrow> fault option \<times> world" where
  "notify_catch u msg w =
     (let w1 = snd (tg (Reply ''Something went wrong during the broadcast, please try again later.'') w)
      in (None, snd (logAdminAction
                       \<lparr>admin_telegram_id = from_id u, action = ''notify_failed'',
                        details = ''Unhandled error during broadcast: '' @ msg\<rparr> w1)))"

text \<open>The part of the handler inside \<open>try\<close>, entered with a non-empty message text.\<close>

definition notify_try :: "tg_user \<Rightarrow> string \<Rightarrow> world \<Rightarrow> fault option \<times> world" where
  "notify_try u messageText w =
     (let (users, w1) = getRegisteredUsersList w
      in case users of
           None \<Rightarrow>
             (let (err, w2) =
                    tg (Reply ''Something went wrong while fetching the user list for notification, please try again later.'') w1
              in case err of
                   Some msg \<Rightarrow> notify_catch u msg w2
                 | None \<Rightarrow>
                     (None, snd (logAdminAction
                                   \<lparr>admin_telegram_id = from_id u, action = ''notify_failed'',
                                    details = ''Database error fetching user list for broadcast.''\<rparr> w2)))
         | Some us \<Rightarrow>
             if length us = 0 then
               (let (err, w2) = tg (Reply ''No users are currently registered to notify.'') w1
                in case err of
                     Some msg \<Rightarrow> notify_catch u msg w2
                   | None \<Rightarrow>
                       (None, snd (logAdminAction
                                     \<lparr>admin_telegram_id = from_id u, action = ''notify_attempt_no_users'',
                                      details = ''No registered users to send broadcast to.''\<rparr> w2)))
             else
               (let ((successfulSends, failedSends, failedUserIds), w2) =
                      broadcast messageText us 0 0 [] w1;
                    (err, w3) = tg (Reply (summary_text successfulSends failedSends)) w2
                in case err of
                     Some msg \<Rightarrow> notify_catch u msg w3
                   | None \<Rightarrow>
                       (None, snd (logAdminAction
                                     \<lparr>admin_telegram_id = from_id u, action = ''broadcast_message'',
                                      details = broadcast_details messageText successfulSends
                                                  failedSends failedUserIds\<rparr> w3))))"

text \<open>\<open>msg_text\<close> is \<open>ctx.message.text\<close>; \<open>substring\<close> drops as many code units
  as "/notify " has, and \<open>trim\<close> the white space around the rest. The usage branch stands
  before the \<open>try\<close>, so a rejected reply there leaves the handler at once.\<close>

definition notify_handler :: "string \<Rightarrow> tg_user \<Rightarrow> world \<Rightarrow> fault option \<times> world" where
  "notify_handler msg_text u w =
     (let messageText = trim (unit_drop (length ''/notify '') msg_text)
      in if messageText = [] then
           (let (err, w1) = tg (Reply usage_hint) w
            in case err of
                 Some msg \<Rightarrow> (Some (TransportError msg), w1)
               | None \<Rightarrow>
                   (None, snd (logAdminAction
                                 \<lparr>admin_telegram_id = from_id u, action = ''notify_failed'',
                                  details = ''No message text provided.''\<rparr> w1)))
         else notify_try u messageText w)"

subsection \<open>The catch-all handlers and the dispatcher\<close>

text \<open>\<open>bot.catch\<close>: one line on the console, nothing else.\<close>

definition bot_catch :: "fault \<Rightarrow> world \<Rightarrow> world" where
  "bot_catch err w =
     w\<lparr>trace := trace w @ [ConsoleError (case err of TransportError msg \<Rightarrow> msg | TypeError \<Rightarrow> ''TypeError'')]\<rparr>"

text \<open>\<open>bot.on('message')\<close>: the hint, for a message with a text that does not begin
  with a slash. The sender is read for the console line before the reply.\<close>

definition on_message :: "tg_user option \<Rightarrow> string option \<Rightarrow> world \<Rightarrow> fault option \<times> world" where
  "on_message sender msg_text w =
     (if truthy msg_text \<and> \<not> starts_with ''/'' (the msg_text) then
        (case sender of
           None \<Rightarrow> (Some TypeError, w)
         | Some u \<Rightarrow> (None, snd (tg (Reply hint_text) w)))
      else (None, w))"

text \<open>An update: a message, with its sender and its text when it has them, or the press of
  an inline button, with the user who pressed it and the button's callback data.\<close>

datatype update = Message "tg_user option" "string option" | CallbackQuery tg_user string

text \<open>
  The command a text message opens with, as the router reads it: the letters, digits and
  underscores after a leading slash (addressing by bot name is left out).
\<close>

definition is_command_char :: "char \<Rightarrow> bool" where
  "is_command_char c =
     (c \<in> set ''abcdefghijklmnopqrstuvwxyzABCDEFGHIJKLMNOPQRSTUVWXYZ0123456789_'')"

definition command_of :: "string option \<Rightarrow> string option" where
  "command_of msg_text =
     (case msg_text of
        None \<Rightarrow> None
      | Some s \<Rightarrow> if starts_with ''/'' s then Some (takeWhile is_command_char (tl s)) else None)"

text \<open>
  The middleware chain in the order the source registers it: \<open>start\<close>, the button
  action, \<open>help\<close>, \<open>count\<close>, \<open>list\<close>, \<open>notify\<close>, then \<open>on('message')\<close>. A
  handler that matches does not pass the update on.
\<close>

definition dispatch :: "config \<Rightarrow> update \<Rightarrow> world \<Rightarrow> fault option \<times> world" where
  "dispatch cfg upd w =
     (case upd of
        CallbackQuery u cb_data \<Rightarrow>
          (case match_register cb_data of
             Some m \<Rightarrow> action_handler m u w
           | None \<Rightarrow> (None, w))
      | Message sender msg_text \<Rightarrow>
          (let cmd = command_of msg_text
           in if cmd = Some ''start'' then start_handler cfg sender w
              else if cmd = Some ''help'' then help_handler cfg sender w
              else if cmd = Some ''count'' then isAdmin cfg sender count_handler w
              else if cmd = Some ''list'' then isAdmin cfg sender list_handler w
              else if cmd = Some ''notify'' then isAdmin cfg sender (notify_handler (the msg_text)) w
              else on_message sender msg_text w))"

text \<open>\<open>bot.handleUpdate\<close>: what escapes the chain goes to \<open>bot.catch\<close>.\<close>

definition handle_update :: "config \<Rightarrow> update \<Rightarrow> world \<Rightarrow> world" where
  "handle_update cfg upd w =
     (case dispatch cfg upd w of
        (None, w1) \<Rightarrow> w1
      | (Some err, w1) \<Rightarrow> bot_catch err w1)"

subsection \<open>Reading a trace\<close>

definition db_calls :: "event list \<Rightarrow> db_call list" where
  "db_calls t = concat (map (\<lambda>e. case e of Db c \<Rightarrow> [c] | _ \<Rightarrow> []) t)"

definition tg_calls :: "event list \<Rightarrow> tg_call list" where
  "tg_calls t = concat (map (\<lambda>e. case e of Tg c _ \<Rightarrow> [c] | _ \<Rightarrow> []) t)"

definition is_log_call :: "db_call \<Rightarrow> bool" where
  "is_log_call c = (case c of LogAdminAction _ \<Rightarrow> True | _ \<Rightarrow> False)"

definition is_insert_call :: "db_call \<Rightarrow> bool" where
  "is_insert_call c = (case c of RegisterUser _ \<Rightarrow> True | _ \<Rightarrow> False)"

text \<open>The events a run from \<open>w\<close> to \<open>w'\<close> has added to the trace.\<close>

definition new_events :: "world \<Rightarrow> world \<Rightarrow> event list" where
  "new_events w w' = drop (length (trace w)) (trace w')"

text \<open>The ids in the registration table.\<close>

definition registered_ids :: "world \<Rightarrow> int list" where
  "registered_ids w = map telegram_id (registrations w)"

subsection \<open>Concrete inputs for the scenarios\<close>

definition quiet_world :: world where
  "quiet_world = \<lparr>registrations = [], admin_logs = [], db_script = [], tg_script = [], trace = []\<rparr>"

definition two_users :: "registrant list" where
  "two_users = [\<lparr>telegram_id = 42, username = Some ''alice'', first_name = ''Alice''\<rparr>,
                \<lparr>telegram_id = 7, username = None, first_name = ''Bob''\<rparr>]"

definition alice :: tg_user where
  "alice = \<lparr>from_id = 42, from_username = Some ''alice'', from_first_name = Some ''Alice''\<rparr>"

definition bob :: tg_user where
  "bob = \<lparr>from_id = 7, from_username = None, from_first_name = None\<rparr>"

definition admin :: tg_user where
  "admin = \<lparr>from_id = 1, from_username = Some ''root'', from_first_name = Some ''Ann''\<rparr>"

definition cfg_admin1 :: config where
  "cfg_admin1 = \<lparr>ADMIN_ID = Some ''1'', ADMIN_USERNAME = None\<rparr>"



text \<open>A chat in which the transport rejects the bot's next message.\<close>

definition muted_world :: world where
  "muted_world = quiet_world\<lparr>tg_script := [Some ''Forbidden'']\<rparr>"

text \<open>The transport accepts the next \<open>n\<close> calls; the backend answers the next \<open>n\<close>
  calls from its tables.\<close>

definition tg_accepts :: "nat \<Rightarrow> world \<Rightarrow> bool" where
  "tg_accepts n w = list_all (\<lambda>e. e = None) (take n (tg_script w))"

definition db_healthy :: "nat \<Rightarrow> world \<Rightarrow> bool" where
  "db_healthy n w = list_all (\<lambda>oc. oc = Healthy) (take n (db_script w))"

text \<open>A store holding the two users, nothing else, no fault ahead.\<close>

definition list_world :: world where
  "list_world = quiet_world\<lparr>registrations := two_users\<rparr>"

text \<open>The callback data a button carries, if it is a callback button.\<close>

definition callback_data :: "button \<Rightarrow> string option" where
  "callback_data b = (case b of CallbackButton label d \<Rightarrow> Some d | UrlButton label url \<Rightarrow> None)"

text \<open>An empty store whose next answer is a reported error (a statement timeout).\<close>

definition faulty_world :: world where
  "faulty_world = quiet_world\<lparr>db_script := [BackendError ''57014'']\<rparr>"

text \<open>The commands the bot registers a handler for.\<close>

definition known_commands :: "string list" where
  "known_commands = [''start'', ''help'', ''count'', ''list'', ''notify'']"

text \<open>The backend throws on the next call and the transport rejects the next message,
  and only that one.\<close>

definition throttled_world :: world where
  "throttled_world = quiet_world\<lparr>db_script := [Thrown], tg_script := [Some ''Too Many Requests'']\<rparr>"



text \<open>The lines \<open>bot.catch\<close> has written, in order.\<close>

definition console_lines :: "event list \<Rightarrow> string list" where
  "console_lines t = concat (map (\<lambda>e. case e of ConsoleError m \<Rightarrow> [m] | _ \<Rightarrow> []) t)"

section \<open>Basic facts about the primitives\<close>

lemma fst_tg [simp]: "fst (tg c w) = next_tg w"
  by (simp add: tg_def)

lemma snd_tg_fields [simp]:
  "trace (snd (tg c w)) = trace w @ [Tg c (next_tg w)]"
  "tg_script (snd (tg c w)) = tl (tg_script w)"
  "db_script (snd (tg c w)) = db_script w"
  "registrations (snd (tg c w)) = registrations w"
  "admin_logs (snd (tg c w)) = admin_logs w"
  by (simp_all add: tg_def)

lemma next_db_tg [simp]: "next_db (snd (tg c w)) = next_db w"
  by (simp add: next_db_def)

lemma db_step_fields [simp]:
  "trace (db_step c w) = trace w @ [Db c]"
  "tg_script (db_step c w) = tg_script w"
  "db_script (db_step c w) = tl (db_script w)"
  "registrations (db_step c w) = registrations w"
  "admin_logs (db_step c w) = admin_logs w"
  by (simp_all add: db_step_def)

lemma next_tg_db_step [simp]: "next_tg (db_step c w) = next_tg w"
  by (simp add: next_tg_def)

lemma parseInt_env_absent: "parseInt_env None = None"
  by (simp add: parseInt_env_def parseInt10_def space_at_def js_space_codes_def starts_with_def is_digit_def)

lemma snd_isUserRegistered [simp]: "snd (isUserRegistered i w) = db_step (IsUserRegistered i) w"
  by (simp add: isUserRegistered_def)

lemma snd_getRegisteredUserCount [simp]:
  "snd (getRegisteredUserCount w) = db_step GetRegisteredUserCount w"
  by (simp add: getRegisteredUserCount_def)

lemma snd_getRegisteredUsersList [simp]:
  "snd (getRegisteredUsersList w) = db_step GetRegisteredUsersList w"
  by (simp add: getRegisteredUsersList_def)

lemma snd_logAdminAction_fields [simp]:
  "trace (snd (logAdminAction e w)) = trace w @ [Db (LogAdminAction e)]"
  "tg_script (snd (logAdminAction e w)) = tg_script w"
  "db_script (snd (logAdminAction e w)) = tl (db_script w)"
  "registrations (snd (logAdminAction e w)) = registrations w"
  by (simp_all add: logAdminAction_def split_def Let_def)

lemma snd_registerUser_fields [simp]:
  "trace (snd (registerUser r w)) = trace w @ [Db (RegisterUser r)]"
  "tg_script (snd (registerUser r w)) = tg_script w"
  "db_script (snd (registerUser r w)) = tl (db_script w)"
  "admin_logs (snd (registerUser r w)) = admin_logs w"
  by (simp_all add: registerUser_def split_def Let_def)

lemma next_tg_log [simp]: "next_tg (snd (logAdminAction e w)) = next_tg w"
  by (simp add: next_tg_def)

lemma next_tg_register [simp]: "next_tg (snd (registerUser r w)) = next_tg w"
  by (simp add: next_tg_def)

lemma new_events_append [simp]: "trace w' = trace w @ es \<Longrightarrow> new_events w w' = es"
  by (simp add: new_events_def)

lemma db_calls_simps [simp]:
  "db_calls [] = []"
  "db_calls (Db c # t) = c # db_calls t"
  "db_calls (Tg k r # t) = db_calls t"
  "db_calls (ConsoleError m # t) = db_calls t"
  "db_calls (t1 @ t2) = db_calls t1 @ db_calls t2"
  by (simp_all add: db_calls_def)

lemma tg_calls_simps [simp]:
  "tg_calls [] = []"
  "tg_calls (Db c # t) = tg_calls t"
  "tg_calls (Tg k r # t) = k # tg_calls t"
  "tg_calls (ConsoleError m # t) = tg_calls t"
  "tg_calls (t1 @ t2) = tg_calls t1 @ tg_calls t2"
  by (simp_all add: tg_calls_def)

section \<open>Audit logging of the administrator commands\<close>

lemma count_handler_trace:
  "\<exists>r e x. trace (snd (count_handler u w))
     = trace w @ [Db GetRegisteredUserCount, Tg (Reply r) (next_tg w)]
         @ (if next_tg w = None then [] else [Tg (Reply generic_failure) x])
         @ [Db (LogAdminAction e)]"
  by (auto simp: count_handler_def count_catch_def split_def Let_def split: option.splits)

lemma count_logs_once:
  "length (filter is_log_call (db_calls (new_events w (snd (count_handler u w))))) = 1"
proof -
  obtain r e x where "trace (snd (count_handler u w))
     = trace w @ ([Db GetRegisteredUserCount, Tg (Reply r) (next_tg w)]
         @ (if next_tg w = None then [] else [Tg (Reply generic_failure) x])
         @ [Db (LogAdminAction e)])"
    using count_handler_trace [of u w] by auto
  then show ?thesis
    by (simp add: is_log_call_def)
qed

lemma list_handler_trace:
  "\<exists>r e x. trace (snd (list_handler u w))
     = trace w @ [Db GetRegisteredUsersList, Tg (Reply r) (next_tg w)]
         @ (if next_tg w = None then [] else [Tg (Reply generic_failure) x])
         @ [Db (LogAdminAction e)]"
  by (auto simp: list_handler_def list_catch_def split_def Let_def split: option.splits)

lemma list_logs_once:
  "length (filter is_log_call (db_calls (new_events w (snd (list_handler u w))))) = 1"
proof -
  obtain r e x where "trace (snd (list_handler u w))
     = trace w @ ([Db GetRegisteredUsersList, Tg (Reply r) (next_tg w)]
         @ (if next_tg w = None then [] else [Tg (Reply generic_failure) x])
         @ [Db (LogAdminAction e)])"
    using list_handler_trace [of u w] by auto
  then show ?thesis
    by (simp add: is_log_call_def)
qed

lemma isAdmin_rejects_stranger:
  "Some (from_id u) \<noteq> parseInt_env (ADMIN_ID cfg) \<Longrightarrow>
   isAdmin cfg (Some u) next w = (None, snd (tg (Reply unauthorized_text) w))
   \<and> new_events w (snd (isAdmin cfg (Some u) next w)) = [Tg (Reply unauthorized_text) (next_tg w)]
   \<and> admin_logs (snd (isAdmin cfg (Some u) next w)) = admin_logs w"
  by (simp add: isAdmin_def)

lemma isAdmin_admits_admin:
  "Some (from_id u) = parseInt_env (ADMIN_ID cfg) \<Longrightarrow> isAdmin cfg (Some u) next w = next u w"
  by (simp add: isAdmin_def)

lemma broadcast_log_count:
  "length (filter is_log_call (db_calls (trace (snd (broadcast m us s f ids w)))))
     = length (filter is_log_call (db_calls (trace w)))"
proof (induction us arbitrary: s f ids w)
  case Nil
  then show ?case by simp
next
  case (Cons user us)
  show ?case
  proof (cases "next_tg w")
    case None
    then have "broadcast m (user # us) s f ids w
                 = broadcast m us (Suc s) f ids (snd (tg (SendMessage (fst user) m) w))"
      by (simp add: tg_def)
    then show ?thesis using Cons.IH [of "Suc s" f ids "snd (tg (SendMessage (fst user) m) w)"]
      by simp
  next
    case (Some e)
    then have "broadcast m (user # us) s f ids w
                 = broadcast m us s (Suc f) (ids @ [fst user]) (snd (tg (SendMessage (fst user) m) w))"
      by (simp add: tg_def)
    then show ?thesis
      using Cons.IH [of s "Suc f" "ids @ [fst user]" "snd (tg (SendMessage (fst user) m) w)"]
      by simp
  qed
qed

lemma notify_try_logs_once:
  "length (filter is_log_call (db_calls (trace (snd (notify_try u m w)))))
     = Suc (length (filter is_log_call (db_calls (trace w))))"
  by (simp add: notify_try_def notify_catch_def split_def Let_def broadcast_log_count
        is_log_call_def split: option.splits)

lemma notify_handler_logs_once:
  assumes "trim (unit_drop (length ''/notify '') msg_text) \<noteq> [] \<or> next_tg w = None"
  shows "length (filter is_log_call (db_calls (trace (snd (notify_handler msg_text u w)))))
     = Suc (length (filter is_log_call (db_calls (trace w))))"
proof (cases "trim (unit_drop (length ''/notify '') msg_text) = []")
  case True
  then have "next_tg w = None" using assms by simp
  then show ?thesis
    using True by (simp add: notify_handler_def split_def Let_def is_log_call_def)
next
  case False
  then have "notify_handler msg_text u w = notify_try u (trim (unit_drop (length ''/notify '') msg_text)) w"
    by (simp add: notify_handler_def Let_def)
  then show ?thesis by (simp only: notify_try_logs_once)
qed

lemma notify_usage_rejected_logs_nothing:
  assumes "trim (unit_drop (length ''/notify '') msg_text) = []" "next_tg w = Some e"
  shows "notify_handler msg_text u w = (Some (TransportError e), snd (tg (Reply usage_hint) w))
     \<and> db_calls (new_events w (snd (notify_handler msg_text u w))) = []"
proof -
  have "notify_handler msg_text u w = (Some (TransportError e), snd (tg (Reply usage_hint) w))"
    using assms by (simp add: notify_handler_def split_def Let_def)
  then show ?thesis by simp
qed

section \<open>The broadcast\<close>




section \<open>/notify without a message text\<close>

lemma notify_usage_branch:
  assumes "trim (unit_drop (length ''/notify '') msg_text) = []"
  shows "notify_handler msg_text u w =
     (case next_tg w of
        Some msg \<Rightarrow> (Some (TransportError msg), snd (tg (Reply usage_hint) w))
      | None \<Rightarrow>
          (None, snd (logAdminAction
                        \<lparr>admin_telegram_id = from_id u, action = ''notify_failed'',
                         details = ''No message text provided.''\<rparr>
                        (snd (tg (Reply usage_hint) w)))))"
  using assms by (simp add: notify_handler_def split_def Let_def split: option.splits)

lemma notify_without_text:
  assumes "trim (unit_drop (length ''/notify '') msg_text) = []"
  shows "take 1 (new_events w (snd (notify_handler msg_text u w))) = [Tg (Reply usage_hint) (next_tg w)]
     \<and> GetRegisteredUsersList \<notin> set (db_calls (new_events w (snd (notify_handler msg_text u w))))
     \<and> (next_tg w = None \<longrightarrow>
          new_events w (snd (notify_handler msg_text u w)) =
            [Tg (Reply usage_hint) None,
             Db (LogAdminAction \<lparr>admin_telegram_id = from_id u, action = ''notify_failed'',
                                 details = ''No message text provided.''\<rparr>)])"
proof (cases "next_tg w")
  case None
  have "trace (snd (notify_handler msg_text u w)) = trace w @
            [Tg (Reply usage_hint) None,
             Db (LogAdminAction \<lparr>admin_telegram_id = from_id u, action = ''notify_failed'',
                                 details = ''No message text provided.''\<rparr>)]"
    using None by (simp add: notify_usage_branch [OF assms])
  then have "new_events w (snd (notify_handler msg_text u w)) =
            [Tg (Reply usage_hint) None,
             Db (LogAdminAction \<lparr>admin_telegram_id = from_id u, action = ''notify_failed'',
                                 details = ''No message text provided.''\<rparr>)]"
    by (rule new_events_append)
  then show ?thesis using None by simp
next
  case (Some msg)
  have "trace (snd (notify_handler msg_text u w)) = trace w @ [Tg (Reply usage_hint) (Some msg)]"
    using Some by (simp add: notify_usage_branch [OF assms])
  then have "new_events w (snd (notify_handler msg_text u w)) = [Tg (Reply usage_hint) (Some msg)]"
    by (rule new_events_append)
  then show ?thesis using Some by simp
qed

text \<open>
  C2 (the code, at an input where it departs from the claim). The administrator sends
  "/notify" with no text into a chat where the transport rejects the bot's reply. The
  usage hint stands before the handler's \<open>try\<close>, so the rejection leaves the handler
  at once: \<open>bot.catch\<close> writes its console line, no audit-log append is made and the
  log table stays empty. On this failure path the invocation appends no log entry, where
  the claim asks for exactly one.
\<close>

theorem notify_usage_reply_rejected_no_log:
  "handle_update cfg_admin1 (Message (Some admin) (Some ''/notify'')) muted_world =
     muted_world\<lparr>tg_script := [],
                  trace := [Tg (Reply usage_hint) (Some ''Forbidden''), ConsoleError ''Forbidden'']\<rparr>
   \<and> filter is_log_call
         (db_calls (trace (handle_update cfg_admin1 (Message (Some admin) (Some ''/notify'')) muted_world))) = []
   \<and> admin_logs (handle_update cfg_admin1 (Message (Some admin) (Some ''/notify'')) muted_world) = []"
  by (simp add: handle_update_def dispatch_def command_of_def starts_with_def is_command_char_def
        isAdmin_def cfg_admin1_def admin_def parseInt_env_def parseInt10_def space_at_def js_space_codes_def starts_with_def
        is_digit_def digits_value_def digit_val_def notify_handler_def trim_def tg_def next_tg_def
        muted_world_def quiet_world_def bot_catch_def)

text \<open>
  C6 (the code, at an input where it departs from the claim). The text after the command
  token is blank and the transport rejects the usage hint: the hint is the first and only
  call, the list is never fetched, and the \<open>notify_failed\<close> entry the claim asks for
  is not appended.
\<close>

theorem notify_blank_text_reply_rejected:
  "new_events muted_world
     (handle_update cfg_admin1 (Message (Some admin) (Some ''/notify   '')) muted_world) =
     [Tg (Reply usage_hint) (Some ''Forbidden''), ConsoleError ''Forbidden'']"
  by (simp add: handle_update_def dispatch_def command_of_def starts_with_def is_command_char_def
        isAdmin_def cfg_admin1_def admin_def parseInt_env_def parseInt10_def space_at_def js_space_codes_def starts_with_def
        is_digit_def digits_value_def digit_val_def notify_handler_def trim_def tg_def next_tg_def
        muted_world_def quiet_world_def bot_catch_def new_events_def)


lemma show_int_42: "show_int 42 = ''42''" "show_int 7 = ''7''"
  by (simp_all add: show_int_def show_nat.simps digit_char_def)

section \<open>The membership check is tri-state\<close>

text \<open>
  C3. The membership check maps every backend response to one of three values: a "no rows
  found" report (error code PGRST116, no data) gives \<open>false\<close>; any other reported
  error, whatever the data, and any thrown exception give the error sentinel \<open>null\<close>;
  a matched row gives \<open>true\<close>. The sentinel differs from both proper results.
\<close>

theorem isUserRegistered_tristate:
  "(code e1 = ''PGRST116'' \<longrightarrow>
      isUserRegistered_of (Resolved (None :: 'a option) (Some e1)) = Some False)
   \<and> (code e2 \<noteq> ''PGRST116'' \<longrightarrow>
      isUserRegistered_of (Resolved (d :: 'a option) (Some e2)) = None)
   \<and> isUserRegistered_of (Rejected :: 'a response) = None
   \<and> isUserRegistered_of (Resolved (Some (row :: 'a)) None) = Some True
   \<and> (None :: bool option) \<noteq> Some False \<and> (None :: bool option) \<noteq> Some True"
  by (simp add: isUserRegistered_of_def)

theorem isUserRegistered_tristate_witness:
  "code (PgError ''PGRST116'') = ''PGRST116''
   \<and> isUserRegistered_of (Resolved (None :: registrant option) (Some (PgError ''PGRST116''))) = Some False
   \<and> code (PgError ''42501'') \<noteq> ''PGRST116''
   \<and> isUserRegistered_of (Resolved (None :: registrant option) (Some (PgError ''42501''))) = None"
  using isUserRegistered_tristate
          [of "PgError ''PGRST116''" "PgError ''42501''" None
              "\<lparr>telegram_id = 42, username = None, first_name = ''Alice''\<rparr>"]
  by simp

section \<open>Rendering and parsing ids\<close>

lemma digit_cases: "d < 10 \<Longrightarrow> d = 0 \<or> d = 1 \<or> d = 2 \<or> d = 3 \<or> d = 4 \<or> d = 5 \<or> d = 6 \<or> d = 7 \<or> d = 8 \<or> d = (9::nat)"
  by arith

lemma is_digit_digit_char: "d < 10 \<Longrightarrow> is_digit (digit_char d)"
  using digit_cases [of d] by (auto simp: digit_char_def is_digit_def)

lemma digit_val_digit_char: "d < 10 \<Longrightarrow> digit_val (digit_char d) = d"
  using digit_cases [of d] by (auto simp: digit_char_def digit_val_def)

lemma space_at_other_head:
  assumes "c \<notin> hd ` set codes" "[] \<notin> set codes"
  shows "space_at codes (c # cs) = 0"
proof -
  have "\<not> starts_with p (c # cs)" if "p \<in> set codes" for p
  proof (cases p)
    case Nil
    then show ?thesis using assms(2) that by simp
  next
    case (Cons x xs)
    then have "x \<noteq> c" using assms(1) that by force
    then show ?thesis using Cons by (simp add: starts_with_def)
  qed
  then have "find (\<lambda>p. starts_with p (c # cs)) codes = None"
    by (simp add: find_None_iff)
  then show ?thesis by (simp add: space_at_def)
qed

lemma is_digit_plain:
  assumes "is_digit c"
  shows "space_at js_space_codes (c # cs) = 0 \<and> c \<noteq> CHR ''-'' \<and> c \<noteq> CHR ''+''"
proof -
  have h: "hd ` set js_space_codes =
        {CHR 0x09, CHR 0x0A, CHR 0x0B, CHR 0x0C, CHR 0x0D, CHR 0x20,
         CHR 0xC2, CHR 0xE1, CHR 0xE2, CHR 0xE3, CHR 0xEF}"
    by (simp add: js_space_codes_def)
  have n: "[] \<notin> set js_space_codes" by (simp add: js_space_codes_def)
  have "c \<notin> hd ` set js_space_codes \<and> c \<noteq> CHR ''-'' \<and> c \<noteq> CHR ''+''"
    unfolding h using assms by (auto simp: is_digit_def)
  then show ?thesis using space_at_other_head [OF _ n] by blast
qed

lemma show_nat_digits: "\<forall>c\<in>set (show_nat n). is_digit c"
proof (induction n rule: show_nat.induct)
  case (1 n)
  show ?case
  proof (cases "n < 10")
    case True
    then show ?thesis by (simp add: show_nat.simps [of n] is_digit_digit_char)
  next
    case False
    then show ?thesis using 1 by (simp add: show_nat.simps [of n] is_digit_digit_char)
  qed
qed

lemma show_nat_nonempty: "show_nat n \<noteq> []"
  by (simp add: show_nat.simps [of n])

lemma digits_value_snoc: "digits_value (ds @ [c]) = digits_value ds * 10 + digit_val c"
  by (simp add: digits_value_def)

lemma digits_value_show_nat: "digits_value (show_nat n) = n"
proof (induction n rule: show_nat.induct)
  case (1 n)
  show ?case
  proof (cases "n < 10")
    case True
    then show ?thesis by (simp add: show_nat.simps [of n] digits_value_def digit_val_digit_char)
  next
    case False
    then have "digits_value (show_nat n) = digits_value (show_nat (n div 10)) * 10 + n mod 10"
      by (simp add: show_nat.simps [of n] digits_value_snoc digit_val_digit_char)
    then show ?thesis using 1 False by simp
  qed
qed

lemma takeWhile_show_nat: "takeWhile is_digit (show_nat n) = show_nat n"
  using show_nat_digits [of n] by (simp add: takeWhile_eq_all_conv)

lemma parseInt10_show_nat: "parseInt10 (show_nat n) = Some (int n)"
proof -
  obtain c cs where s: "show_nat n = c # cs"
    using show_nat_nonempty [of n] by (cases "show_nat n") auto
  have d: "is_digit c" using show_nat_digits [of n] s by simp
  have dw: "strip_with js_space_codes (show_nat n) = show_nat n"
    using s is_digit_plain [OF d, of cs] by simp
  have hd: "hd (show_nat n) \<noteq> CHR ''-''" "hd (show_nat n) \<noteq> CHR ''+''"
    using s is_digit_plain [OF d, of cs] by simp_all
  show ?thesis
    using dw hd show_nat_nonempty [of n]
    by (simp add: parseInt10_def Let_def takeWhile_show_nat digits_value_show_nat)
qed

lemma match_register_yes:
  "match_register (''register_yes:'' @ show_nat n) = Some (''yes'', Some (show_nat n))"
  using show_nat_nonempty [of n]
  by (simp add: match_here_def match_tail_def starts_with_def takeWhile_show_nat Let_def)

lemma match_register_no: "match_register ''register_no'' = Some (''no'', None)"
  by (simp add: match_here_def match_tail_def starts_with_def Let_def)

lemma show_int_pos: "0 \<le> a \<Longrightarrow> show_int a = show_nat (nat a)"
  by (simp add: show_int_def)

section \<open>Scripts without faults\<close>

lemma tg_accepts_next: "tg_accepts (Suc n) w \<Longrightarrow> next_tg w = None"
  by (cases "tg_script w") (simp_all add: tg_accepts_def next_tg_def)

lemma tg_accepts_tl: "tg_accepts (Suc n) w \<Longrightarrow> tg_script w' = tl (tg_script w) \<Longrightarrow> tg_accepts n w'"
  by (cases "tg_script w") (simp_all add: tg_accepts_def)

lemma tg_accepts_same: "tg_script w' = tg_script w \<Longrightarrow> tg_accepts n w' = tg_accepts n w"
  by (simp add: tg_accepts_def)

lemma db_healthy_next: "db_healthy (Suc n) w \<Longrightarrow> next_db w = Healthy"
  by (cases "db_script w") (simp_all add: db_healthy_def next_db_def)

lemma db_healthy_tl: "db_healthy (Suc n) w \<Longrightarrow> db_script w' = tl (db_script w) \<Longrightarrow> db_healthy n w'"
  by (cases "db_script w") (simp_all add: db_healthy_def)

section \<open>The administrator gate\<close>

text \<open>
  C10. The administrator gate fails closed. When \<open>parseInt\<close> of the configured
  administrator id is \<open>NaN\<close>, as it is for an absent id, then for every sender and
  every gated handler \<open>next\<close> the guard replies with the unauthorized notice and
  returns: the result does not depend on \<open>next\<close>, which is never invoked, and neither
  table changes. The same holds for the three commands through the dispatcher.
\<close>

theorem isAdmin_fails_closed:
  assumes "parseInt_env (ADMIN_ID cfg) = None"
  shows "isAdmin cfg sender next w = (None, snd (tg (Reply unauthorized_text) w))
     \<and> new_events w (snd (isAdmin cfg sender next w)) = [Tg (Reply unauthorized_text) (next_tg w)]
     \<and> registrations (snd (isAdmin cfg sender next w)) = registrations w
     \<and> admin_logs (snd (isAdmin cfg sender next w)) = admin_logs w
     \<and> dispatch cfg (Message sender (Some ''/count'')) w = (None, snd (tg (Reply unauthorized_text) w))
     \<and> dispatch cfg (Message sender (Some ''/list'')) w = (None, snd (tg (Reply unauthorized_text) w))
     \<and> dispatch cfg (Message sender (Some (''/notify '' @ m))) w
           = (None, snd (tg (Reply unauthorized_text) w))
     \<and> parseInt_env None = None"
proof -
  have a: "\<And>nxt. isAdmin cfg sender nxt w = (None, snd (tg (Reply unauthorized_text) w))"
    using assms by (simp add: isAdmin_def)
  have c: "command_of (Some ''/count'') = Some ''count''"
          "command_of (Some ''/list'') = Some ''list''"
          "command_of (Some (''/notify '' @ m)) = Some ''notify''"
    by (simp_all add: command_of_def starts_with_def is_command_char_def)
  have d: "dispatch cfg (Message sender (Some ''/count'')) w = (None, snd (tg (Reply unauthorized_text) w))"
          "dispatch cfg (Message sender (Some ''/list'')) w = (None, snd (tg (Reply unauthorized_text) w))"
          "dispatch cfg (Message sender (Some (''/notify '' @ m))) w = (None, snd (tg (Reply unauthorized_text) w))"
    by (simp_all only: dispatch_def update.case Let_def c a) simp_all
  show ?thesis
    using a d parseInt_env_absent by simp
qed

theorem isAdmin_fails_closed_witness:
  "parseInt_env (ADMIN_ID \<lparr>ADMIN_ID = Some ''admin'', ADMIN_USERNAME = None\<rparr>) = None
   \<and> handle_update \<lparr>ADMIN_ID = Some ''admin'', ADMIN_USERNAME = None\<rparr>
        (Message (Some admin) (Some ''/count'')) quiet_world
      = quiet_world\<lparr>trace := [Tg (Reply unauthorized_text) None]\<rparr>"
proof -
  have h: "parseInt_env (ADMIN_ID \<lparr>ADMIN_ID = Some ''admin'', ADMIN_USERNAME = None\<rparr>) = None"
    by (simp add: parseInt_env_def parseInt10_def space_at_def js_space_codes_def starts_with_def is_digit_def)
  show ?thesis
    using h isAdmin_fails_closed [OF h, of "Some admin" count_handler quiet_world]
    by (simp add: handle_update_def tg_def next_tg_def quiet_world_def)
qed

section \<open>The reply of /list\<close>




section \<open>The registration buttons: guard and decline\<close>

lemma decline_try:
  "action_try ''no'' u w =
     (None, if next_tg w = None then snd (tg (EditMessageText decline_ack) w)
            else snd (tg (Reply generic_failure) (snd (tg (EditMessageText decline_ack) w))))"
  by (simp add: action_try_def split_def Let_def)

lemma action_handler_unguarded:
  "action_handler (act, None) u w =
     (if next_tg w = None then action_try act u (snd (tg (AnswerCbQuery None False) w))
      else (map_option TransportError (next_tg w), snd (tg (AnswerCbQuery None False) w)))"
  by (simp add: action_handler_def truthy_def split_def Let_def)

lemma action_handler_own_id:
  "parseInt10 ds = Some (from_id u) \<Longrightarrow>
   action_handler (act, Some ds) u w =
     (if next_tg w = None then action_try act u (snd (tg (AnswerCbQuery None False) w))
      else (map_option TransportError (next_tg w), snd (tg (AnswerCbQuery None False) w)))"
  by (simp add: action_handler_def truthy_def split_def Let_def)

lemma action_handler_other_id:
  "parseInt10 ds = Some a \<Longrightarrow> ds \<noteq> [] \<Longrightarrow> a \<noteq> 0 \<Longrightarrow> a \<noteq> from_id u \<Longrightarrow>
   action_handler (act, Some ds) u w =
     (map_option TransportError (next_tg w), snd (tg (AnswerCbQuery (Some not_for_you) True) w))"
  by (simp add: action_handler_def truthy_def split_def Let_def)

lemma decline_frame:
  "registrations (snd (action_handler (''no'', g) u w)) = registrations w
   \<and> admin_logs (snd (action_handler (''no'', g) u w)) = admin_logs w
   \<and> db_script (snd (action_handler (''no'', g) u w)) = db_script w
   \<and> db_calls (trace (snd (action_handler (''no'', g) u w))) = db_calls (trace w)"
  by (simp add: action_handler_def decline_try split_def Let_def)

lemma isUserRegistered_depends:
  "registrations w' = registrations w \<Longrightarrow> db_script w' = db_script w \<Longrightarrow>
   fst (isUserRegistered tid w') = fst (isUserRegistered tid w)"
  by (simp add: isUserRegistered_def next_db_def)

lemma db_calls_new_events:
  "db_calls (trace w') = db_calls (trace w) \<Longrightarrow> \<exists>es. trace w' = trace w @ es \<Longrightarrow>
   db_calls (new_events w w') = []"
  by auto

lemma decline_dispatch:
  "dispatch cfg (CallbackQuery u ''register_no'') w = action_handler (''no'', None) u w"
  by (simp only: dispatch_def update.case match_register_no option.case)

lemma decline_events:
  "new_events w (snd (action_handler (''no'', None) u w)) =
     Tg (AnswerCbQuery None False) (next_tg w) #
     (if next_tg w = None
      then Tg (EditMessageText decline_ack) (next_tg (snd (tg (AnswerCbQuery None False) w))) #
           (if next_tg (snd (tg (AnswerCbQuery None False) w)) = None then []
            else [Tg (Reply generic_failure)
                    (next_tg (snd (tg (EditMessageText decline_ack)
                                     (snd (tg (AnswerCbQuery None False) w)))))])
      else [])"
  by (rule new_events_append) (simp add: action_handler_unguarded decline_try)

text \<open>
  C7. Activating the decline button ("register_no"), by any user and in any state of the
  store and of the transport, makes no gateway call and leaves both tables as they were,
  so the membership check of every id gives afterwards what it gave before; the same
  holds for any decline callback, whatever id it carries. When the transport accepts the
  calls, the only calls are the acknowledgement of the click and the edit of the prompt to
  the acknowledgement text.
\<close>

theorem decline_writes_nothing:
  "registrations (snd (dispatch cfg (CallbackQuery u ''register_no'') w)) = registrations w
   \<and> admin_logs (snd (dispatch cfg (CallbackQuery u ''register_no'') w)) = admin_logs w
   \<and> db_calls (new_events w (snd (dispatch cfg (CallbackQuery u ''register_no'') w))) = []
   \<and> fst (isUserRegistered tid (snd (dispatch cfg (CallbackQuery u ''register_no'') w)))
       = fst (isUserRegistered tid w)
   \<and> registrations (snd (action_handler (''no'', g) v w)) = registrations w
   \<and> fst (isUserRegistered tid (snd (action_handler (''no'', g) v w)))
       = fst (isUserRegistered tid w)
   \<and> (tg_accepts 2 w \<longrightarrow>
        new_events w (snd (dispatch cfg (CallbackQuery u ''register_no'') w))
          = [Tg (AnswerCbQuery None False) None, Tg (EditMessageText decline_ack) None])"
proof -
  let ?w' = "snd (action_handler (''no'', None) u w)"
  have ev: "db_calls (new_events w ?w') = []"
    by (simp add: decline_events)
  have chk: "\<And>g v. fst (isUserRegistered tid (snd (action_handler (''no'', g) v w)))
       = fst (isUserRegistered tid w)"
    by (rule isUserRegistered_depends) (simp_all add: decline_frame)
  have acc: "tg_accepts 2 w \<longrightarrow> new_events w ?w'
          = [Tg (AnswerCbQuery None False) None, Tg (EditMessageText decline_ack) None]"
  proof
    assume a: "tg_accepts 2 w"
    then have n1: "next_tg w = None"
      by (simp add: tg_accepts_next numeral_2_eq_2)
    have "tg_accepts (Suc 0) (snd (tg (AnswerCbQuery None False) w))"
      using a by (auto simp: numeral_2_eq_2 intro: tg_accepts_tl)
    then have n2: "next_tg (snd (tg (AnswerCbQuery None False) w)) = None"
      by (rule tg_accepts_next)
    show "new_events w ?w'
          = [Tg (AnswerCbQuery None False) None, Tg (EditMessageText decline_ack) None]"
      using n1 n2 by (simp add: decline_events)
  qed
  show ?thesis
    using ev chk acc by (simp add: decline_dispatch decline_frame)
qed

theorem decline_writes_nothing_witness:
  "tg_accepts 2 list_world
   \<and> new_events list_world (snd (dispatch cfg_admin1 (CallbackQuery bob ''register_no'') list_world))
       = [Tg (AnswerCbQuery None False) None, Tg (EditMessageText decline_ack) None]
   \<and> registrations (snd (dispatch cfg_admin1 (CallbackQuery bob ''register_no'') list_world)) = two_users"
proof -
  have h: "tg_accepts 2 list_world"
    by (simp add: tg_accepts_def list_world_def quiet_world_def)
  show ?thesis
    using h decline_writes_nothing [of cfg_admin1 bob list_world]
    by (simp add: list_world_def quiet_world_def)
qed

section \<open>The accept button and its guard\<close>

lemma start_buttons_data:
  "map callback_data (hd (start_buttons cfg a)) = [Some (''register_yes:'' @ show_int a), Some ''register_no'']"
  by (simp add: start_buttons_def callback_data_def)

lemma accept_dispatch:
  assumes "0 \<le> a"
  shows "dispatch cfg (CallbackQuery u (''register_yes:'' @ show_int a)) w
           = action_handler (''yes'', Some (show_nat (nat a))) u w"
proof -
  have "show_int a = show_nat (nat a)" using assms by (simp add: show_int_def)
  then show ?thesis
    by (simp only: dispatch_def update.case match_register_yes option.case)
qed

lemma accept_by_other:
  assumes "0 < a" "from_id u \<noteq> a"
  shows "dispatch cfg (CallbackQuery u (''register_yes:'' @ show_int a)) w
           = (map_option TransportError (next_tg w),
              snd (tg (AnswerCbQuery (Some not_for_you) True) w))"
proof -
  have p: "parseInt10 (show_nat (nat a)) = Some a"
    using assms(1) by (simp add: parseInt10_show_nat)
  have nn: "0 \<le> a" using assms(1) by simp
  have "action_handler (''yes'', Some (show_nat (nat a))) u w
          = (map_option TransportError (next_tg w),
             snd (tg (AnswerCbQuery (Some not_for_you) True) w))"
    using assms by (intro action_handler_other_id [OF p]) (simp_all add: show_nat_nonempty)
  then show ?thesis by (simp only: accept_dispatch [OF nn])
qed

text \<open>
  C4 (amended). The accept button of the offer carries the initiating user's id in its
  callback data; the decline button carries none. For every pair of distinct user ids,
  the first positive as Telegram's are, where the accept button was made for the first
  user and is activated by the second, the handler answers the click with the visible
  "not for you" alert and does nothing else: no edit of the prompt, no gateway call,
  both tables unchanged. A decline button activated by any user is not rejected by the
  guard: the click is acknowledged without the notice; it never calls the insert.
\<close>

theorem accept_button_guard:
  assumes "0 < a" "from_id u \<noteq> a"
  shows "map callback_data (hd (start_buttons cfg a))
           = [Some (''register_yes:'' @ show_int a), Some ''register_no'']
     \<and> new_events w (snd (dispatch cfg (CallbackQuery u (''register_yes:'' @ show_int a)) w))
           = [Tg (AnswerCbQuery (Some not_for_you) True) (next_tg w)]
     \<and> registrations (snd (dispatch cfg (CallbackQuery u (''register_yes:'' @ show_int a)) w))
           = registrations w
     \<and> admin_logs (snd (dispatch cfg (CallbackQuery u (''register_yes:'' @ show_int a)) w))
           = admin_logs w
     \<and> filter is_insert_call
          (db_calls (new_events w (snd (dispatch cfg (CallbackQuery v ''register_no'') w)))) = []
     \<and> take 1 (new_events w (snd (dispatch cfg (CallbackQuery v ''register_no'') w)))
           = [Tg (AnswerCbQuery None False) (next_tg w)]"
proof -
  note e = accept_by_other [OF assms, of cfg w]
  have n: "new_events w (snd (dispatch cfg (CallbackQuery u (''register_yes:'' @ show_int a)) w))
           = [Tg (AnswerCbQuery (Some not_for_you) True) (next_tg w)]"
    unfolding e by (rule new_events_append) simp
  have r: "registrations (snd (dispatch cfg (CallbackQuery u (''register_yes:'' @ show_int a)) w))
           = registrations w"
          "admin_logs (snd (dispatch cfg (CallbackQuery u (''register_yes:'' @ show_int a)) w))
           = admin_logs w"
    unfolding e by simp_all
  have d: "db_calls (new_events w (snd (dispatch cfg (CallbackQuery v ''register_no'') w))) = []"
    by (simp add: decline_dispatch decline_events)
  have t: "take 1 (new_events w (snd (dispatch cfg (CallbackQuery v ''register_no'') w)))
           = [Tg (AnswerCbQuery None False) (next_tg w)]"
    by (simp add: decline_dispatch decline_events)
  show ?thesis
    using n r d t start_buttons_data [of cfg a] by (simp only: simp_thms filter.simps)
qed

theorem accept_button_guard_witness:
  "(0::int) < 42 \<and> from_id bob \<noteq> 42
   \<and> new_events quiet_world (snd (dispatch cfg_admin1 (CallbackQuery bob ''register_yes:42'') quiet_world))
        = [Tg (AnswerCbQuery (Some not_for_you) True) None]"
proof -
  have a: "(0::int) < 42" by simp
  have b: "from_id bob \<noteq> 42" by (simp add: bob_def)
  have q: "next_tg quiet_world = None" by (simp add: next_tg_def quiet_world_def)
  show ?thesis
    using a b q accept_button_guard [OF a b, of cfg_admin1 quiet_world]
    by (simp add: show_int_42)
qed

text \<open>
  C4 as stated fails: the decline button of the offer made for user 42 carries no id, and
  when user 7 activates it the handler shows no "not for you" notice but acknowledges the
  click and edits the prompt to the decline acknowledgement.
\<close>

theorem decline_button_unguarded:
  "map callback_data (hd (start_buttons cfg_admin1 42)) = [Some ''register_yes:42'', Some ''register_no'']
   \<and> from_id bob \<noteq> 42
   \<and> new_events quiet_world (handle_update cfg_admin1 (CallbackQuery bob ''register_no'') quiet_world)
        = [Tg (AnswerCbQuery None False) None, Tg (EditMessageText decline_ack) None]"
proof -
  have "handle_update cfg_admin1 (CallbackQuery bob ''register_no'') quiet_world
          = quiet_world\<lparr>trace := [Tg (AnswerCbQuery None False) None,
                                    Tg (EditMessageText decline_ack) None]\<rparr>"
    by (simp add: handle_update_def decline_dispatch action_handler_unguarded decline_try
          tg_def next_tg_def quiet_world_def)
  then show ?thesis
    using start_buttons_data [of cfg_admin1 42]
    by (simp add: show_int_42 bob_def new_events_def quiet_world_def)
qed

section \<open>Accepting the offer\<close>

lemma registerUser_success:
  assumes "fst (registerUser row w) \<noteq> None"
  shows "next_db w = Healthy \<and> telegram_id row \<notin> telegram_id ` set (registrations w)
     \<and> registrations (snd (registerUser row w)) = registrations w @ [row]"
  using assms
  by (auto simp: registerUser_def insert_registration_def data_or_null_def fault_response_def
        split_def Let_def split: if_splits db_outcome.splits)

lemma registerUser_healthy:
  "next_db w = Healthy \<Longrightarrow> telegram_id row \<notin> telegram_id ` set (registrations w) \<Longrightarrow>
   fst (registerUser row w) = Some row"
  by (simp add: registerUser_def insert_registration_def data_or_null_def)

lemma filter_absent: "i \<notin> telegram_id ` set regs \<Longrightarrow> filter (\<lambda>r. telegram_id r = i) regs = []"
  by (induction regs) auto

lemma isUserRegistered_absent:
  "next_db w = Healthy \<Longrightarrow> i \<notin> telegram_id ` set (registrations w) \<Longrightarrow>
   fst (isUserRegistered i w) = Some False"
  by (simp add: isUserRegistered_def select_single_def isUserRegistered_of_def filter_absent)

lemma isUserRegistered_once:
  "next_db w = Healthy \<Longrightarrow> filter (\<lambda>r. telegram_id r = i) (registrations w) = [r] \<Longrightarrow>
   fst (isUserRegistered i w) = Some True"
  by (simp add: isUserRegistered_def select_single_def isUserRegistered_of_def)

lemma start_keeps_tables:
  "registrations (snd (start_handler cfg sender w)) = registrations w
   \<and> admin_logs (snd (start_handler cfg sender w)) = admin_logs w"
  by (simp add: start_handler_def split_def Let_def split: option.splits bool.splits)

lemma starts_keep_registrations:
  "registrations (((\<lambda>x. snd (start_handler cfg sender x)) ^^ n) w0) = registrations w0"
  by (induction n) (simp_all add: start_keeps_tables)

lemma accept_try_trace:
  "trace (snd (action_try ''yes'' u w)) =
     trace (snd (accept_body u w)) @
       (if fst (accept_body u w) = None then []
        else [Tg (Reply generic_failure) (next_tg (snd (accept_body u w)))])"
  "registrations (snd (action_try ''yes'' u w)) = registrations (snd (accept_body u w))"
  "db_script (snd (action_try ''yes'' u w)) = db_script (snd (accept_body u w))"
  by (simp_all add: action_try_def split_def Let_def)

lemma accept_body_cases:
  "accept_body u w =
     (case fst (isUserRegistered (from_id u) w) of
        None \<Rightarrow> tg (EditMessageText generic_failure) (snd (isUserRegistered (from_id u) w))
      | Some True \<Rightarrow> tg (EditMessageText already_registered) (snd (isUserRegistered (from_id u) w))
      | Some False \<Rightarrow>
          tg (EditMessageText
                (if fst (registerUser \<lparr>telegram_id = from_id u, username = from_username u,
                                       first_name = or_else (from_first_name u) ''N/A''\<rparr>
                           (snd (isUserRegistered (from_id u) w))) \<noteq> None
                 then confirmation_text (or_else (from_first_name u) ''there'')
                 else registration_failed))
             (snd (registerUser \<lparr>telegram_id = from_id u, username = from_username u,
                                  first_name = or_else (from_first_name u) ''N/A''\<rparr>
                     (snd (isUserRegistered (from_id u) w)))))"
  by (simp add: accept_body_def split_def Let_def split: option.splits bool.splits)

lemma accept_dispatch_negative:
  assumes "a < 0"
  shows "dispatch cfg (CallbackQuery u (''register_yes:'' @ show_int a)) w
           = action_handler (''yes'', None) u w"
proof -
  have "match_register (''register_yes:'' @ CHR ''-'' # show_nat (nat (- a))) = Some (''yes'', None)"
    by (simp add: match_here_def match_tail_def starts_with_def is_digit_def Let_def)
  moreover have "show_int a = CHR ''-'' # show_nat (nat (- a))"
    using assms by (simp add: show_int_def)
  ultimately show ?thesis
    by (simp only: dispatch_def update.case option.case)
qed

lemma accept_own_button:
  assumes "next_tg w = None"
  shows "dispatch cfg (CallbackQuery u (''register_yes:'' @ show_int (from_id u))) w
           = action_try ''yes'' u (snd (tg (AnswerCbQuery None False) w))"
proof (cases "0 \<le> from_id u")
  case True
  then have p: "parseInt10 (show_nat (nat (from_id u))) = Some (from_id u)"
    by (simp add: parseInt10_show_nat)
  show ?thesis
    unfolding accept_dispatch [OF True] action_handler_own_id [OF p]
    using assms by simp
next
  case False
  then have n: "from_id u < 0" by simp
  show ?thesis
    unfolding accept_dispatch_negative [OF n] action_handler_unguarded
    using assms by simp
qed

lemma registerUser_depends:
  "registrations w' = registrations w \<Longrightarrow> db_script w' = db_script w \<Longrightarrow>
   fst (registerUser row w') = fst (registerUser row w)
   \<and> registrations (snd (registerUser row w')) = registrations (snd (registerUser row w))"
  by (simp add: registerUser_def next_db_def split_def Let_def)

lemma accept_events:
  assumes "next_tg w = None"
  shows "\<exists>e fb. db_calls fb = [] \<and> tg_calls fb = (if e = None then [] else [Reply generic_failure])
     \<and> new_events w (snd (action_try ''yes'' u (snd (tg (AnswerCbQuery None False) w)))) =
         Tg (AnswerCbQuery None False) None # Db (IsUserRegistered (from_id u)) #
         (case fst (isUserRegistered (from_id u) w) of
            None \<Rightarrow> [Tg (EditMessageText generic_failure) e]
          | Some True \<Rightarrow> [Tg (EditMessageText already_registered) e]
          | Some False \<Rightarrow>
              [Db (RegisterUser \<lparr>telegram_id = from_id u, username = from_username u,
                                 first_name = or_else (from_first_name u) ''N/A''\<rparr>),
               Tg (EditMessageText
                     (if fst (registerUser \<lparr>telegram_id = from_id u, username = from_username u,
                                            first_name = or_else (from_first_name u) ''N/A''\<rparr>
                                (snd (isUserRegistered (from_id u) w))) \<noteq> None
                      then confirmation_text (or_else (from_first_name u) ''there'')
                      else registration_failed)) e]) @ fb"
proof -
  let ?w1 = "snd (tg (AnswerCbQuery None False) w)"
  let ?row = "\<lparr>telegram_id = from_id u, username = from_username u,
               first_name = or_else (from_first_name u) ''N/A''\<rparr>"
  have rc: "fst (isUserRegistered (from_id u) ?w1) = fst (isUserRegistered (from_id u) w)"
    by (rule isUserRegistered_depends) simp_all
  have ins: "fst (registerUser ?row (snd (isUserRegistered (from_id u) ?w1)))
               = fst (registerUser ?row (snd (isUserRegistered (from_id u) w)))"
    by (rule registerUser_depends [THEN conjunct1]) simp_all
  let ?e = "next_tg (snd (tg (AnswerCbQuery None False) w))"
  let ?fb = "if ?e = None then [] else [Tg (Reply generic_failure) (next_tg (snd (accept_body u ?w1)))]"
  have "new_events w (snd (action_try ''yes'' u ?w1)) =
         Tg (AnswerCbQuery None False) None # Db (IsUserRegistered (from_id u)) #
         (case fst (isUserRegistered (from_id u) w) of
            None \<Rightarrow> [Tg (EditMessageText generic_failure) ?e]
          | Some True \<Rightarrow> [Tg (EditMessageText already_registered) ?e]
          | Some False \<Rightarrow>
              [Db (RegisterUser ?row),
               Tg (EditMessageText
                     (if fst (registerUser ?row (snd (isUserRegistered (from_id u) w))) \<noteq> None
                      then confirmation_text (or_else (from_first_name u) ''there'')
                      else registration_failed)) ?e]) @ ?fb"
    apply (rule new_events_append)
    apply (simp only: accept_try_trace accept_body_cases rc ins)
    using assms
    apply (simp split: option.splits bool.splits)
    done
  moreover have "db_calls ?fb = []" by simp
  moreover have "tg_calls ?fb = (if ?e = None then [] else [Reply generic_failure])" by simp
  ultimately show ?thesis by blast
qed

lemma accept_tables:
  "registrations (snd (action_try ''yes'' u (snd (tg (AnswerCbQuery None False) w)))) =
     (if fst (isUserRegistered (from_id u) w) = Some False
      then registrations (snd (registerUser \<lparr>telegram_id = from_id u, username = from_username u,
                                              first_name = or_else (from_first_name u) ''N/A''\<rparr>
                                 (snd (isUserRegistered (from_id u) w))))
      else registrations w)"
proof -
  let ?w1 = "snd (tg (AnswerCbQuery None False) w)"
  let ?row = "\<lparr>telegram_id = from_id u, username = from_username u,
               first_name = or_else (from_first_name u) ''N/A''\<rparr>"
  have rc: "fst (isUserRegistered (from_id u) ?w1) = fst (isUserRegistered (from_id u) w)"
    by (rule isUserRegistered_depends) simp_all
  have ins: "registrations (snd (registerUser ?row (snd (isUserRegistered (from_id u) ?w1))))
               = registrations (snd (registerUser ?row (snd (isUserRegistered (from_id u) w))))"
    by (rule registerUser_depends [THEN conjunct2]) simp_all
  show ?thesis
    by (simp only: accept_try_trace accept_body_cases rc)
       (simp add: ins [simplified] split: option.splits bool.splits)
qed

text \<open>
  C1 (amended). A user activates the accept button made for that user, and the transport
  accepts the acknowledgement of the click. The handler first re-verifies membership. If
  the re-check reports "already registered", it edits the prompt to the "already
  registered" message and never calls insert. If the re-check reports the error sentinel,
  it edits the prompt to the generic failure message and never calls insert. If the
  re-check reports "not registered", it calls register once with the id, the handle and
  the display name, "N/A" standing in for an absent name, and edits the prompt to the
  confirmation when the insert succeeded, to the failure message otherwise. After a
  successful insert the id was not in the table before, the table has gained exactly that
  one row, and a later membership check that the backend answers yields \<open>true\<close>. For
  an id not in the table and a backend that answers both calls, the re-check reports "not
  registered" and the insert succeeds. Issuing \<open>/start\<close> any number of times beforehand
  leaves the registration table as it was.
\<close>

theorem accept_registers:
  fixes u :: tg_user and w :: world and cfg :: config
  defines "i \<equiv> from_id u"
      and "row \<equiv> \<lparr>telegram_id = from_id u, username = from_username u,
                   first_name = or_else (from_first_name u) ''N/A''\<rparr>"
      and "w' \<equiv> snd (dispatch cfg (CallbackQuery u (''register_yes:'' @ show_int (from_id u))) w)"
      and "rc \<equiv> fst (isUserRegistered (from_id u) w)"
  defines "ins \<equiv> fst (registerUser row (snd (isUserRegistered (from_id u) w)))"
  assumes ack: "next_tg w = None"
  shows "take 2 (new_events w w') = [Tg (AnswerCbQuery None False) None, Db (IsUserRegistered i)]
     \<and> (rc = Some True \<longrightarrow>
          db_calls (new_events w w') = [IsUserRegistered i]
          \<and> take 2 (tg_calls (new_events w w'))
               = [AnswerCbQuery None False, EditMessageText already_registered])
     \<and> (rc = None \<longrightarrow>
          db_calls (new_events w w') = [IsUserRegistered i]
          \<and> take 2 (tg_calls (new_events w w'))
               = [AnswerCbQuery None False, EditMessageText generic_failure])
     \<and> (rc = Some False \<longrightarrow>
          db_calls (new_events w w') = [IsUserRegistered i, RegisterUser row]
          \<and> take 2 (tg_calls (new_events w w'))
               = [AnswerCbQuery None False,
                  EditMessageText (if ins \<noteq> None
                                   then confirmation_text (or_else (from_first_name u) ''there'')
                                   else registration_failed)])
     \<and> (rc = Some False \<and> ins \<noteq> None \<longrightarrow>
          i \<notin> set (registered_ids w)
          \<and> registrations w' = registrations w @ [row]
          \<and> length (filter (\<lambda>r. telegram_id r = i) (registrations w')) = 1
          \<and> (next_db w' = Healthy \<longrightarrow> fst (isUserRegistered i w') = Some True))
     \<and> (i \<notin> set (registered_ids w) \<and> db_healthy 2 w \<longrightarrow> rc = Some False \<and> ins \<noteq> None)
     \<and> registrations (((\<lambda>x. snd (start_handler cfg sender x)) ^^ n) w0) = registrations w0"
proof -
  let ?w2 = "snd (action_try ''yes'' u (snd (tg (AnswerCbQuery None False) w)))"
  have w': "w' = ?w2"
    unfolding w'_def accept_own_button [OF ack] ..
  obtain e fb where fb: "db_calls fb = []"
      "tg_calls fb = (if e = None then [] else [Reply generic_failure])"
    and ev: "new_events w ?w2 =
         Tg (AnswerCbQuery None False) None # Db (IsUserRegistered i) #
         (case rc of
            None \<Rightarrow> [Tg (EditMessageText generic_failure) e]
          | Some True \<Rightarrow> [Tg (EditMessageText already_registered) e]
          | Some False \<Rightarrow>
              [Db (RegisterUser row),
               Tg (EditMessageText
                     (if ins \<noteq> None
                      then confirmation_text (or_else (from_first_name u) ''there'')
                      else registration_failed)) e]) @ fb"
    unfolding i_def rc_def ins_def row_def using accept_events [OF ack, of u] by blast
  have c1: "take 2 (new_events w w') = [Tg (AnswerCbQuery None False) None, Db (IsUserRegistered i)]"
    unfolding w' ev by simp
  have c2: "rc = Some True \<longrightarrow>
          db_calls (new_events w w') = [IsUserRegistered i]
          \<and> take 2 (tg_calls (new_events w w'))
               = [AnswerCbQuery None False, EditMessageText already_registered]"
    unfolding w' ev using fb by simp
  have c3: "rc = None \<longrightarrow>
          db_calls (new_events w w') = [IsUserRegistered i]
          \<and> take 2 (tg_calls (new_events w w'))
               = [AnswerCbQuery None False, EditMessageText generic_failure]"
    unfolding w' ev using fb by simp
  have c4: "rc = Some False \<longrightarrow>
          db_calls (new_events w w') = [IsUserRegistered i, RegisterUser row]
          \<and> take 2 (tg_calls (new_events w w'))
               = [AnswerCbQuery None False,
                  EditMessageText (if ins \<noteq> None
                                   then confirmation_text (or_else (from_first_name u) ''there'')
                                   else registration_failed)]"
    unfolding w' ev using fb by simp
  have tab: "rc = Some False \<Longrightarrow>
      registrations w' = registrations (snd (registerUser row (snd (isUserRegistered (from_id u) w))))"
    unfolding w' rc_def row_def by (simp only: accept_tables) simp
  have scr: "rc = Some False \<Longrightarrow> db_script w' = tl (tl (db_script w))"
    unfolding w' rc_def
    by (simp only: accept_try_trace accept_body_cases)
       (simp add: isUserRegistered_depends [of "snd (tg (AnswerCbQuery None False) w)" w])
  have c5: "rc = Some False \<and> ins \<noteq> None \<longrightarrow>
          i \<notin> set (registered_ids w)
          \<and> registrations w' = registrations w @ [row]
          \<and> length (filter (\<lambda>r. telegram_id r = i) (registrations w')) = 1
          \<and> (next_db w' = Healthy \<longrightarrow> fst (isUserRegistered i w') = Some True)"
  proof (intro impI, elim conjE)
    assume a: "rc = Some False" and b: "ins \<noteq> None"
    from registerUser_success [OF b [unfolded ins_def]]
    have ab: "i \<notin> telegram_id ` set (registrations w)"
      and app: "registrations (snd (registerUser row (snd (isUserRegistered (from_id u) w))))
                  = registrations w @ [row]"
      by (simp_all add: row_def i_def)
    have regs: "registrations w' = registrations w @ [row]"
      using tab [OF a] app by simp
    have flt: "filter (\<lambda>r. telegram_id r = i) (registrations w') = [row]"
      using regs filter_absent [OF ab] by (simp add: row_def i_def)
    have chk: "next_db w' = Healthy \<longrightarrow> fst (isUserRegistered i w') = Some True"
      using isUserRegistered_once [OF _ flt] by blast
    show "i \<notin> set (registered_ids w)
          \<and> registrations w' = registrations w @ [row]
          \<and> length (filter (\<lambda>r. telegram_id r = i) (registrations w')) = 1
          \<and> (next_db w' = Healthy \<longrightarrow> fst (isUserRegistered i w') = Some True)"
      using ab regs flt chk by (simp add: registered_ids_def)
  qed
  have c6: "i \<notin> set (registered_ids w) \<and> db_healthy 2 w \<longrightarrow> rc = Some False \<and> ins \<noteq> None"
  proof (intro impI, elim conjE)
    assume ab: "i \<notin> set (registered_ids w)" and h: "db_healthy 2 w"
    have h1: "next_db w = Healthy"
      using h by (simp add: db_healthy_next numeral_2_eq_2)
    have "db_healthy (Suc 0) (snd (isUserRegistered (from_id u) w))"
      using h by (auto simp: numeral_2_eq_2 intro: db_healthy_tl)
    then have h2: "next_db (snd (isUserRegistered (from_id u) w)) = Healthy"
      by (rule db_healthy_next)
    have ab': "i \<notin> telegram_id ` set (registrations w)"
      using ab by (simp add: registered_ids_def)
    have r1: "rc = Some False"
      unfolding rc_def using isUserRegistered_absent [OF h1 ab'] by (simp add: i_def)
    have "fst (registerUser row (snd (isUserRegistered (from_id u) w))) = Some row"
      using ab' by (intro registerUser_healthy [OF h2]) (simp add: row_def i_def)
    then show "rc = Some False \<and> ins \<noteq> None"
      using r1 by (simp add: ins_def)
  qed
  show ?thesis
    using c1 c2 c3 c4 c5 c6 starts_keep_registrations by blast
qed

lemma accept_alice_run:
  "dispatch cfg_admin1 (CallbackQuery alice (''register_yes:'' @ show_int (from_id alice))) quiet_world
     = (None,
        quiet_world\<lparr>registrations := [\<lparr>telegram_id = 42, username = Some ''alice'', first_name = ''Alice''\<rparr>],
                     trace := [Tg (AnswerCbQuery None False) None, Db (IsUserRegistered 42),
                               Db (RegisterUser \<lparr>telegram_id = 42, username = Some ''alice'',
                                                  first_name = ''Alice''\<rparr>),
                               Tg (EditMessageText (confirmation_text ''Alice'')) None]\<rparr>)"
proof -
  have p: "0 < from_id alice" by (simp add: alice_def)
  have q: "next_tg quiet_world = None" by (simp add: next_tg_def quiet_world_def)
  show ?thesis
    unfolding accept_own_button [OF q]
    by (simp add: action_try_def accept_body_def isUserRegistered_def registerUser_def
          select_single_def insert_registration_def isUserRegistered_of_def data_or_null_def
          next_db_def db_step_def tg_def next_tg_def quiet_world_def alice_def or_else_def
          truthy_def split_def Let_def)
qed

theorem accept_registers_witness:
  "0 < from_id alice \<and> next_tg quiet_world = None
   \<and> from_id alice \<notin> set (registered_ids quiet_world) \<and> db_healthy 2 quiet_world
   \<and> registrations (snd (dispatch cfg_admin1
          (CallbackQuery alice (''register_yes:'' @ show_int (from_id alice))) quiet_world))
        = [\<lparr>telegram_id = 42, username = Some ''alice'', first_name = ''Alice''\<rparr>]
   \<and> fst (isUserRegistered (from_id alice) (snd (dispatch cfg_admin1
          (CallbackQuery alice (''register_yes:'' @ show_int (from_id alice))) quiet_world)))
        = Some True"
proof -
  let ?w' = "snd (dispatch cfg_admin1
          (CallbackQuery alice (''register_yes:'' @ show_int (from_id alice))) quiet_world)"
  have p: "0 < from_id alice" by (simp add: alice_def)
  have q: "next_tg quiet_world = None" by (simp add: next_tg_def quiet_world_def)
  have a: "from_id alice \<notin> set (registered_ids quiet_world)"
    by (simp add: registered_ids_def quiet_world_def)
  have h: "db_healthy 2 quiet_world"
    by (simp add: db_healthy_def quiet_world_def)
  have nd: "next_db ?w' = Healthy"
    unfolding accept_alice_run by (simp add: next_db_def quiet_world_def)
  note T = accept_registers [OF q, of cfg_admin1 alice]
  from T a h have s: "fst (isUserRegistered (from_id alice) quiet_world) = Some False
      \<and> fst (registerUser \<lparr>telegram_id = from_id alice, username = from_username alice,
                            first_name = or_else (from_first_name alice) ''N/A''\<rparr>
                (snd (isUserRegistered (from_id alice) quiet_world))) \<noteq> None"
    by blast
  from T s nd have r: "registrations ?w' = registrations quiet_world @
                         [\<lparr>telegram_id = from_id alice, username = from_username alice,
                           first_name = or_else (from_first_name alice) ''N/A''\<rparr>]"
      and c: "fst (isUserRegistered (from_id alice) ?w') = Some True"
    by blast+
  have r': "registrations ?w' = [\<lparr>telegram_id = 42, username = Some ''alice'', first_name = ''Alice''\<rparr>]"
    unfolding r by (simp add: quiet_world_def alice_def or_else_def truthy_def)
  show ?thesis
    using p q a h r' c by (simp only: simp_thms)
qed

text \<open>
  C1 as stated fails: user 42 is not in the table and the backend reports an error on the
  re-check. The re-check does not report "already registered", yet the handler does not
  call register: it edits the prompt to the generic failure message and stops.
\<close>

theorem accept_recheck_error_no_insert:
  "from_id alice \<notin> set (registered_ids faulty_world)
   \<and> fst (isUserRegistered (from_id alice) faulty_world) = None
   \<and> new_events faulty_world
        (handle_update cfg_admin1 (CallbackQuery alice ''register_yes:42'') faulty_world)
        = [Tg (AnswerCbQuery None False) None, Db (IsUserRegistered 42),
           Tg (EditMessageText generic_failure) None]
   \<and> filter is_insert_call
        (db_calls (new_events faulty_world
           (handle_update cfg_admin1 (CallbackQuery alice ''register_yes:42'') faulty_world))) = []"
proof -
  have p: "0 < from_id alice" by (simp add: alice_def)
  have q: "next_tg faulty_world = None" by (simp add: next_tg_def faulty_world_def quiet_world_def)
  have s: "''register_yes:42'' = ''register_yes:'' @ show_int (from_id alice)"
    by (simp add: show_int_42 alice_def)
  have d: "dispatch cfg_admin1 (CallbackQuery alice ''register_yes:42'') faulty_world
     = (None, faulty_world\<lparr>db_script := [],
          trace := [Tg (AnswerCbQuery None False) None, Db (IsUserRegistered 42),
                    Tg (EditMessageText generic_failure) None]\<rparr>)"
    unfolding s accept_own_button [OF q]
    by (simp add: action_try_def accept_body_def isUserRegistered_def
          select_single_def fault_response_def isUserRegistered_of_def
          next_db_def db_step_def tg_def next_tg_def faulty_world_def quiet_world_def alice_def
          split_def Let_def)
  have n: "new_events faulty_world
        (handle_update cfg_admin1 (CallbackQuery alice ''register_yes:42'') faulty_world)
        = [Tg (AnswerCbQuery None False) None, Db (IsUserRegistered 42),
           Tg (EditMessageText generic_failure) None]"
    unfolding handle_update_def d
    by (simp add: new_events_def faulty_world_def quiet_world_def)
  have c: "fst (isUserRegistered (from_id alice) faulty_world) = None"
    by (simp add: isUserRegistered_def select_single_def fault_response_def
          isUserRegistered_of_def next_db_def faulty_world_def quiet_world_def)
  have a: "from_id alice \<notin> set (registered_ids faulty_world)"
    by (simp add: registered_ids_def faulty_world_def quiet_world_def)
  show ?thesis
    unfolding n using a c by (simp add: is_insert_call_def)
qed

section \<open>Updates no handler takes, and escaped faults\<close>

lemma command_of_plain: "\<not> starts_with ''/'' s \<Longrightarrow> command_of (Some s) = None"
  by (simp add: command_of_def)

lemma dispatch_unmatched:
  assumes "command_of msg_text \<notin> Some ` set known_commands"
  shows "dispatch cfg (Message sender msg_text) w = on_message sender msg_text w"
  using assms by (simp add: dispatch_def known_commands_def Let_def)

lemma handle_update_calls:
  "tg_calls (trace (handle_update cfg upd w)) = tg_calls (trace (snd (dispatch cfg upd w)))"
  by (cases "dispatch cfg upd w") (simp add: handle_update_def bot_catch_def split: option.splits)

section \<open>White space beyond ASCII\<close>

text \<open>
  \<open>parseInt\<close> and \<open>trim\<close> strip the white space of the language, not only that of
  ASCII: an administrator id configured as a no-break space followed by "1" parses as 1
  and admits user 1, and "/notify" followed by a no-break space alone has no message text.
\<close>

lemma parseInt10_nbsp: "parseInt10 ([CHR 0xC2, CHR 0xA0] @ ''1'') = Some 1"
  by (simp add: parseInt10_def space_at_def js_space_codes_def starts_with_def is_digit_def
        digits_value_def digit_val_def)

lemma isAdmin_nbsp_id:
  "isAdmin \<lparr>ADMIN_ID = Some ([CHR 0xC2, CHR 0xA0] @ ''1''), ADMIN_USERNAME = None\<rparr>
      (Some admin) next w = next admin w
   \<and> isAdmin \<lparr>ADMIN_ID = Some ([CHR 0xC2, CHR 0xA0] @ ''1''), ADMIN_USERNAME = None\<rparr>
      (Some alice) next w = (None, snd (tg (Reply unauthorized_text) w))"
  using parseInt10_nbsp by (simp add: isAdmin_def parseInt_env_def admin_def alice_def)

lemma trim_nbsp: "trim (unit_drop (length ''/notify '') (''/notify '' @ [CHR 0xC2, CHR 0xA0])) = []"
  by (simp add: trim_def space_at_def js_space_codes_def starts_with_def)

lemma unit_drop_nbsp:
  "trim (unit_drop (length ''/notify '') (''/notify'' @ [CHR 0xC2, CHR 0xA0] @ ''hi'')) = ''hi''"
  by (simp add: trim_def space_at_def js_space_codes_def starts_with_def)

section \<open>The outcome of a broadcast\<close>










section \<open>Faults that reach the catch-all\<close>

lemma console_lines_simps [simp]:
  "console_lines [] = []"
  "console_lines (Db c # t) = console_lines t"
  "console_lines (Tg k r # t) = console_lines t"
  "console_lines (ConsoleError m # t) = m # console_lines t"
  "console_lines (t1 @ t2) = console_lines t1 @ console_lines t2"
  by (simp_all add: console_lines_def)

lemma quiet_start: "console_lines (trace (snd (start_handler cfg sender w))) = console_lines (trace w)"
  by (simp add: start_handler_def split_def Let_def split: option.splits bool.splits)

lemma quiet_help: "console_lines (trace (snd (help_handler cfg sender w))) = console_lines (trace w)"
  by (simp add: help_handler_def split: option.splits)

lemma quiet_count: "console_lines (trace (snd (count_handler u w))) = console_lines (trace w)"
  by (simp add: count_handler_def count_catch_def split_def Let_def split: option.splits)

lemma quiet_list: "console_lines (trace (snd (list_handler u w))) = console_lines (trace w)"
  by (simp add: list_handler_def list_catch_def split_def Let_def split: option.splits)

lemma quiet_broadcast:
  "console_lines (trace (snd (broadcast m us s f ids w))) = console_lines (trace w)"
proof (induction us arbitrary: s f ids w)
  case Nil
  then show ?case by simp
next
  case (Cons user us)
  show ?case
  proof (cases "next_tg w")
    case None
    then have "broadcast m (user # us) s f ids w
                 = broadcast m us (Suc s) f ids (snd (tg (SendMessage (fst user) m) w))"
      by (simp add: tg_def)
    then show ?thesis using Cons.IH [of "Suc s" f ids "snd (tg (SendMessage (fst user) m) w)"]
      by simp
  next
    case (Some e)
    then have "broadcast m (user # us) s f ids w
                 = broadcast m us s (Suc f) (ids @ [fst user]) (snd (tg (SendMessage (fst user) m) w))"
      by (simp add: tg_def)
    then show ?thesis
      using Cons.IH [of s "Suc f" "ids @ [fst user]" "snd (tg (SendMessage (fst user) m) w)"]
      by simp
  qed
qed

lemma quiet_notify: "console_lines (trace (snd (notify_handler msg_text u w))) = console_lines (trace w)"
  by (simp add: notify_handler_def notify_try_def notify_catch_def split_def Let_def quiet_broadcast
        split: option.splits)

lemma quiet_action: "console_lines (trace (snd (action_handler m u w))) = console_lines (trace w)"
  by (simp add: action_handler_def action_try_def accept_body_def split_def Let_def
        split: option.splits bool.splits)

lemma quiet_on_message:
  "console_lines (trace (snd (on_message sender msg_text w))) = console_lines (trace w)"
  by (simp add: on_message_def split: option.splits)

lemma quiet_isAdmin:
  "(\<And>v x. console_lines (trace (snd (next v x))) = console_lines (trace x)) \<Longrightarrow>
   console_lines (trace (snd (isAdmin cfg sender next w))) = console_lines (trace w)"
  by (simp add: isAdmin_def)

lemma quiet_dispatch:
  "console_lines (trace (snd (dispatch cfg upd w))) = console_lines (trace w)"
proof (cases upd)
  case (CallbackQuery v cb)
  then show ?thesis by (simp add: dispatch_def quiet_action split: option.splits)
next
  case (Message sender msg_text)
  then show ?thesis
    by (simp add: dispatch_def Let_def quiet_start quiet_help quiet_on_message
          quiet_isAdmin [of count_handler, OF quiet_count]
          quiet_isAdmin [of list_handler, OF quiet_list]
          quiet_isAdmin [of "notify_handler (the msg_text)", OF quiet_notify])
qed

lemma no_fault_count: "fst (count_handler u w) = None"
  by (simp add: count_handler_def count_catch_def split_def Let_def split: option.splits)

lemma no_fault_list: "fst (list_handler u w) = None"
  by (simp add: list_handler_def list_catch_def split_def Let_def split: option.splits)

lemma fault_notify:
  "fst (notify_handler msg_text u w) =
     (if trim (unit_drop (length ''/notify '') msg_text) = []
      then map_option TransportError (next_tg w) else None)"
  by (simp add: notify_handler_def notify_try_def notify_catch_def split_def Let_def
        split: option.splits)

lemma fault_start:
  "fst (start_handler cfg sender w) =
     (if sender = None then Some TypeError
      else if fst (isUserRegistered (from_id (the sender)) w) = None
      then map_option TransportError (next_tg w) else None)"
  by (simp add: start_handler_def split_def Let_def split: option.splits bool.splits)

lemma fault_help: "fst (help_handler cfg sender w) = (if sender = None then Some TypeError else None)"
  by (simp add: help_handler_def split: option.splits)

lemma fault_action: "fst (action_handler m u w) = map_option TransportError (next_tg w)"
  by (simp add: action_handler_def action_try_def split_def Let_def split: option.splits)

lemma fault_on_message:
  "fst (on_message sender msg_text w) =
     (if truthy msg_text \<and> \<not> starts_with ''/'' (the msg_text) \<and> sender = None
      then Some TypeError else None)"
  by (simp add: on_message_def split: option.splits)

lemma fault_isAdmin:
  "fst (isAdmin cfg sender next w) =
     (if sender \<noteq> None \<and> Some (from_id (the sender)) = parseInt_env (ADMIN_ID cfg)
      then fst (next (the sender) w) else None)"
  by (simp add: isAdmin_def)

lemma fault_dispatch_message:
  "fst (dispatch cfg (Message sender msg_text) w) =
     (if command_of msg_text = Some ''start'' then
        (if sender = None then Some TypeError
         else if fst (isUserRegistered (from_id (the sender)) w) = None
         then map_option TransportError (next_tg w) else None)
      else if command_of msg_text = Some ''help'' then
        (if sender = None then Some TypeError else None)
      else if command_of msg_text = Some ''count'' \<or> command_of msg_text = Some ''list'' then None
      else if command_of msg_text = Some ''notify'' then
        (if sender \<noteq> None \<and> Some (from_id (the sender)) = parseInt_env (ADMIN_ID cfg)
            \<and> trim (unit_drop (length ''/notify '') (the msg_text)) = []
         then map_option TransportError (next_tg w) else None)
      else if truthy msg_text \<and> \<not> starts_with ''/'' (the msg_text) \<and> sender = None
      then Some TypeError else None)"
  by (simp add: dispatch_def Let_def fault_start fault_help fault_isAdmin no_fault_count
        no_fault_list fault_notify fault_on_message)

lemma fault_dispatch_callback:
  "fst (dispatch cfg (CallbackQuery v cb) w) =
     (if match_register cb = None then None else map_option TransportError (next_tg w))"
  by (simp add: dispatch_def fault_action split: option.splits)

lemma handle_update_console:
  "console_lines (trace (handle_update cfg upd w)) =
     console_lines (trace w) @
       (case fst (dispatch cfg upd w) of
          None \<Rightarrow> []
        | Some err \<Rightarrow> [case err of TransportError msg \<Rightarrow> msg | TypeError \<Rightarrow> ''TypeError''])"
  using quiet_dispatch [of cfg upd w]
  by (cases "dispatch cfg upd w") (simp add: handle_update_def bot_catch_def split: option.splits)

text \<open>
  C9 (amended). For every message that no command handler takes: when it has a sender and
  a non-empty text that does not begin with a slash, the dispatcher issues the static hint
  and nothing else, and a rejection of that reply, which is not awaited, is caught by no
  one (no console line); when it has no text, an empty text or a text that begins with a
  slash, nothing is sent; a callback query that is not a registration button gets no
  reply. A handler lets a fault escape in these cases only: the sender is read on an
  update without one (\<open>/start\<close>, \<open>/help\<close>, or a text due the hint); the failure reply
  of \<open>/start\<close> after a failed membership check is rejected; the acknowledgement of a
  button press is rejected; the usage hint of \<open>/notify\<close> is rejected. Such a fault, and
  no other, is caught by \<open>bot.catch\<close>, which writes one line to the console and sends
  nothing to the user.
\<close>

theorem unmatched_updates:
  "(s \<noteq> [] \<and> \<not> starts_with ''/'' s \<longrightarrow>
      new_events w (handle_update cfg (Message (Some u) (Some s)) w)
        = [Tg (Reply hint_text) (next_tg w)]
      \<and> handle_update cfg (Message None (Some s)) w
        = w\<lparr>trace := trace w @ [ConsoleError ''TypeError'']\<rparr>)
   \<and> (command_of msg_text \<notin> Some ` set known_commands
        \<and> (\<not> truthy msg_text \<or> starts_with ''/'' (the msg_text)) \<longrightarrow>
      handle_update cfg (Message sender msg_text) w = w)
   \<and> (match_register cb = None \<longrightarrow> handle_update cfg (CallbackQuery v cb) w = w)
   \<and> fst (dispatch cfg (Message sender msg_text) w) =
       (if command_of msg_text = Some ''start'' then
          (if sender = None then Some TypeError
           else if fst (isUserRegistered (from_id (the sender)) w) = None
           then map_option TransportError (next_tg w) else None)
        else if command_of msg_text = Some ''help'' then
          (if sender = None then Some TypeError else None)
        else if command_of msg_text = Some ''count'' \<or> command_of msg_text = Some ''list'' then None
        else if command_of msg_text = Some ''notify'' then
          (if sender \<noteq> None \<and> Some (from_id (the sender)) = parseInt_env (ADMIN_ID cfg)
              \<and> trim (unit_drop (length ''/notify '') (the msg_text)) = []
           then map_option TransportError (next_tg w) else None)
        else if truthy msg_text \<and> \<not> starts_with ''/'' (the msg_text) \<and> sender = None
        then Some TypeError else None)
   \<and> fst (dispatch cfg (CallbackQuery v cb) w) =
       (if match_register cb = None then None else map_option TransportError (next_tg w))
   \<and> console_lines (trace (handle_update cfg upd w)) =
       console_lines (trace w) @
         (case fst (dispatch cfg upd w) of
            None \<Rightarrow> []
          | Some err \<Rightarrow> [case err of TransportError msg \<Rightarrow> msg | TypeError \<Rightarrow> ''TypeError''])
   \<and> tg_calls (trace (handle_update cfg upd w)) = tg_calls (trace (snd (dispatch cfg upd w)))"
proof -
  have a: "s \<noteq> [] \<and> \<not> starts_with ''/'' s \<longrightarrow>
      new_events w (handle_update cfg (Message (Some u) (Some s)) w)
        = [Tg (Reply hint_text) (next_tg w)]
      \<and> handle_update cfg (Message None (Some s)) w
        = w\<lparr>trace := trace w @ [ConsoleError ''TypeError'']\<rparr>"
  proof (intro impI, elim conjE)
    assume ne: "s \<noteq> []" and ns: "\<not> starts_with ''/'' s"
    have c: "command_of (Some s) \<notin> Some ` set known_commands"
      using ns by (simp add: command_of_plain)
    have d: "dispatch cfg (Message (Some u) (Some s)) w = (None, snd (tg (Reply hint_text) w))"
      unfolding dispatch_unmatched [OF c] using ne ns by (simp add: on_message_def truthy_def)
    have "handle_update cfg (Message (Some u) (Some s)) w = snd (tg (Reply hint_text) w)"
      unfolding handle_update_def d by simp
    then have h: "new_events w (handle_update cfg (Message (Some u) (Some s)) w)
           = [Tg (Reply hint_text) (next_tg w)]"
      by (simp add: new_events_def)
    have d': "dispatch cfg (Message None (Some s)) w = (Some TypeError, w)"
      unfolding dispatch_unmatched [OF c] using ne ns by (simp add: on_message_def truthy_def)
    have "handle_update cfg (Message None (Some s)) w
        = w\<lparr>trace := trace w @ [ConsoleError ''TypeError'']\<rparr>"
      unfolding handle_update_def d' by (simp add: bot_catch_def)
    with h show "new_events w (handle_update cfg (Message (Some u) (Some s)) w)
        = [Tg (Reply hint_text) (next_tg w)]
      \<and> handle_update cfg (Message None (Some s)) w
        = w\<lparr>trace := trace w @ [ConsoleError ''TypeError'']\<rparr>" by simp
  qed
  have b: "command_of msg_text \<notin> Some ` set known_commands
        \<and> (\<not> truthy msg_text \<or> starts_with ''/'' (the msg_text)) \<longrightarrow>
      handle_update cfg (Message sender msg_text) w = w"
  proof (intro impI, elim conjE)
    assume c: "command_of msg_text \<notin> Some ` set known_commands"
       and t: "\<not> truthy msg_text \<or> starts_with ''/'' (the msg_text)"
    have "dispatch cfg (Message sender msg_text) w = (None, w)"
      unfolding dispatch_unmatched [OF c] using t by (auto simp: on_message_def)
    then show "handle_update cfg (Message sender msg_text) w = w"
      by (simp add: handle_update_def)
  qed
  have c: "match_register cb = None \<longrightarrow> handle_update cfg (CallbackQuery v cb) w = w"
    by (simp add: handle_update_def dispatch_def)
  show ?thesis
    using a b c fault_dispatch_message [of cfg sender msg_text w]
      fault_dispatch_callback [of cfg v cb w] handle_update_console [of cfg upd w]
      handle_update_calls [of cfg upd w]
    by (simp only: simp_thms)
qed

theorem unmatched_updates_witness:
  "''hello'' \<noteq> [] \<and> \<not> starts_with ''/'' ''hello''
   \<and> new_events quiet_world (handle_update cfg_admin1 (Message (Some alice) (Some ''hello'')) quiet_world)
        = [Tg (Reply hint_text) None]
   \<and> handle_update cfg_admin1 (Message None (Some ''hello'')) quiet_world
        = quiet_world\<lparr>trace := [ConsoleError ''TypeError'']\<rparr>"
proof -
  have h: "''hello'' \<noteq> [] \<and> \<not> starts_with ''/'' ''hello''"
    by (simp add: starts_with_def)
  have q: "next_tg quiet_world = None" "trace quiet_world = []"
    by (simp_all add: next_tg_def quiet_world_def)
  from unmatched_updates [of "''hello''" quiet_world cfg_admin1 alice] h
  have "new_events quiet_world (handle_update cfg_admin1 (Message (Some alice) (Some ''hello'')) quiet_world)
        = [Tg (Reply hint_text) (next_tg quiet_world)]
      \<and> handle_update cfg_admin1 (Message None (Some ''hello'')) quiet_world
        = quiet_world\<lparr>trace := trace quiet_world @ [ConsoleError ''TypeError'']\<rparr>"
    by blast
  then show ?thesis using h q by simp
qed

text \<open>
  C9 as stated fails: the unknown command "/foo", a message without text and a foreign
  button are not answered at all; when \<open>/start\<close> meets a backend fault and its failure
  reply is rejected, the escaped fault is only logged by \<open>bot.catch\<close>, which sends no
  message although the transport would accept the next call; and when the hint reply to
  "hello" is rejected, the rejection is neither caught nor logged.
\<close>

theorem unknown_command_and_fault_unanswered:
  "command_of (Some ''/foo'') \<notin> Some ` set known_commands
   \<and> handle_update cfg_admin1 (Message (Some alice) (Some ''/foo'')) quiet_world = quiet_world
   \<and> handle_update cfg_admin1 (Message (Some alice) None) quiet_world = quiet_world
   \<and> handle_update cfg_admin1 (CallbackQuery alice ''other_button'') quiet_world = quiet_world
   \<and> handle_update cfg_admin1 (Message (Some alice) (Some ''/start'')) throttled_world
       = quiet_world\<lparr>trace := [Db (IsUserRegistered 42),
                                 Tg (Reply generic_failure) (Some ''Too Many Requests''),
                                 ConsoleError ''Too Many Requests'']\<rparr>
   \<and> handle_update cfg_admin1 (Message (Some alice) (Some ''hello'')) muted_world
       = quiet_world\<lparr>trace := [Tg (Reply hint_text) (Some ''Forbidden'')]\<rparr>"
proof -
  have a: "command_of (Some ''/foo'') \<notin> Some ` set known_commands"
    by (simp add: command_of_def starts_with_def is_command_char_def known_commands_def)
  have b: "handle_update cfg_admin1 (Message (Some alice) (Some ''/foo'')) quiet_world = quiet_world"
    by (simp add: handle_update_def dispatch_unmatched [OF a] on_message_def truthy_def starts_with_def)
  have c: "handle_update cfg_admin1 (Message (Some alice) None) quiet_world = quiet_world"
    by (simp add: handle_update_def dispatch_def command_of_def on_message_def truthy_def)
  have d: "handle_update cfg_admin1 (CallbackQuery alice ''other_button'') quiet_world = quiet_world"
    by (simp add: handle_update_def dispatch_def match_here_def starts_with_def)
  have e: "handle_update cfg_admin1 (Message (Some alice) (Some ''/start'')) throttled_world
       = quiet_world\<lparr>trace := [Db (IsUserRegistered 42),
                                 Tg (Reply generic_failure) (Some ''Too Many Requests''),
                                 ConsoleError ''Too Many Requests'']\<rparr>"
    by (simp add: handle_update_def dispatch_def command_of_def starts_with_def is_command_char_def
          start_handler_def isUserRegistered_def select_single_def fault_response_def
          isUserRegistered_of_def next_db_def db_step_def tg_def next_tg_def bot_catch_def
          throttled_world_def quiet_world_def alice_def split_def Let_def)
  have f: "handle_update cfg_admin1 (Message (Some alice) (Some ''hello'')) muted_world
       = quiet_world\<lparr>trace := [Tg (Reply hint_text) (Some ''Forbidden'')]\<rparr>"
    by (simp add: handle_update_def dispatch_def command_of_def starts_with_def on_message_def
          truthy_def tg_def next_tg_def muted_world_def quiet_world_def)
  show ?thesis using a b c d e f by (simp only: simp_thms)
qed

end
